theory Spec2Isabelle
  imports Complex_Main
begin

section \<open>The countdown bot (\<^verbatim>\<open>bot.js\<close>)\<close>

text \<open>
  A shallow embedding of \<^verbatim>\<open>bot.js\<close>. Conventions:

  \<^item> A JavaScript number that holds an integer (an epoch time in milliseconds, a count, an
    index) is an \<open>int\<close>; the quotients that \<^verbatim>\<open>getTimeRemaining\<close> forms before it floors
    them are exact rationals (\<open>rat\<close>). \<^verbatim>\<open>NaN\<close> is \<open>None\<close> of an option.
  \<^item> A JavaScript string is a \<open>string\<close>, read as the bytes of its UTF-8 text (well-formed:
    no lone surrogate). A character outside ASCII is the two to four bytes that encode it;
    no byte of such a character is the byte of an ASCII character, and no encoding is the
    beginning or the end of another.
  \<^item> What the process reads from outside (the clock, the time zone, the answers of the chat
    platform, whether the file system accepts a write) is an explicit argument.
  \<^item> What the process does to the outside (messages sent, edited and reacted to, console
    lines, the file, the presence text) is recorded in the state.
  \<^item> A handler runs on its own until it awaits a call of the platform; what other handlers
    do to the state while it waits is an answer of the outside as well, a change of the
    state.
\<close>

subsection \<open>JavaScript numbers and their text\<close>

definition js_trunc :: "rat \<Rightarrow> int" where
  "js_trunc q = (if 0 \<le> q then \<lfloor>q\<rfloor> else \<lceil>q\<rceil>)"

text \<open>The operator \<^verbatim>\<open>%\<close>: the remainder has the sign of the dividend.\<close>

definition js_rem :: "rat \<Rightarrow> rat \<Rightarrow> rat" where
  "js_rem x y = x - y * of_int (js_trunc (x / y))"

definition Math_floor :: "rat \<Rightarrow> int" where
  "Math_floor q = \<lfloor>q\<rfloor>"

definition digit_char :: "nat \<Rightarrow> char" where
  "digit_char d = ''0123456789'' ! d"

fun show_nat :: "nat \<Rightarrow> string" where
  "show_nat n = (if n < 10 then [digit_char n] else show_nat (n div 10) @ [digit_char (n mod 10)])"

declare show_nat.simps [simp del]

text \<open>\<^verbatim>\<open>String(n)\<close> of an integer \<open>n\<close> (decimal digits, below \<open>10\<^sup>2\<^sup>1\<close> in size).\<close>

definition js_string_of_int :: "int \<Rightarrow> string" where
  "js_string_of_int i = (if i < 0 then CHR ''-'' # show_nat (nat (- i)) else show_nat (nat i))"

text \<open>\<^verbatim>\<open>Array.prototype.join\<close> on an array of strings.\<close>

fun join :: "string \<Rightarrow> string list \<Rightarrow> string" where
  "join sep [] = []"
| "join sep [x] = x"
| "join sep (x # y # ys) = x @ sep @ join sep (y # ys)"

subsection \<open>The remaining time\<close>

record time_remaining =
  expired :: bool
  total :: int
  days :: int
  hours :: int
  minutes :: int
  seconds :: int

text \<open>\<^verbatim>\<open>getTimeRemaining(targetDate)\<close>; the reading of \<^verbatim>\<open>Date.now()\<close> is the argument \<open>now\<close>.\<close>

definition getTimeRemaining :: "int \<Rightarrow> int \<Rightarrow> time_remaining" where
  "getTimeRemaining targetDate now =
     (let total = targetDate - now in
      if total \<le> 0 then
        \<lparr>expired = True, total = 0, days = 0, hours = 0, minutes = 0, seconds = 0\<rparr>
      else
        let seconds = Math_floor (js_rem (of_int total / 1000) 60);
            minutes = Math_floor (js_rem (of_int total / 1000 / 60) 60);
            hours = Math_floor (js_rem (of_int total / (1000 * 60 * 60)) 24);
            days = Math_floor (of_int total / (1000 * 60 * 60 * 24))
        in \<lparr>expired = False, total = total, days = days, hours = hours,
             minutes = minutes, seconds = seconds\<rparr>)"

text \<open>\<^verbatim>\<open>formatTimeRemaining(tr)\<close>; \<open>parts\<close> grows by one \<^verbatim>\<open>push\<close> after the other.\<close>

definition formatTimeRemaining :: "time_remaining \<Rightarrow> string" where
  "formatTimeRemaining tr =
     (if expired tr then ''This countdown has expired!''
      else
        let parts = [];
            parts = (if days tr > 0
                     then parts @ [js_string_of_int (days tr) @ '' day'' @
                                   (if days tr \<noteq> 1 then ''s'' else '''')]
                     else parts);
            parts = (if hours tr > 0
                     then parts @ [js_string_of_int (hours tr) @ '' hour'' @
                                   (if hours tr \<noteq> 1 then ''s'' else '''')]
                     else parts);
            parts = (if minutes tr > 0
                     then parts @ [js_string_of_int (minutes tr) @ '' minute'' @
                                   (if minutes tr \<noteq> 1 then ''s'' else '''')]
                     else parts);
            parts = (if seconds tr > 0
                     then parts @ [js_string_of_int (seconds tr) @ '' second'' @
                                   (if seconds tr \<noteq> 1 then ''s'' else '''')]
                     else parts);
            joined = join '', '' parts
        in if joined = [] then ''Just a moment'' else joined)"

subsection \<open>JavaScript strings\<close>

text \<open>
  The white space of JavaScript (\<open>WhiteSpace\<close> and \<open>LineTerminator\<close> of ECMA-262), which
  \<^verbatim>\<open>\s\<close>, \<^verbatim>\<open>trim\<close> and \<^verbatim>\<open>parseInt\<close> go by: U+0009 to U+000D, U+0020, U+00A0, U+1680,
  U+2000 to U+200A, U+2028, U+2029, U+202F, U+205F, U+3000 and U+FEFF, each as its bytes.
\<close>

definition white_space :: "string list" where
  "white_space =
     [[CHR 0x09], [CHR 0x0A], [CHR 0x0B], [CHR 0x0C], [CHR 0x0D], [CHR 0x20],
      [CHR 0xC2, CHR 0xA0], [CHR 0xE1, CHR 0x9A, CHR 0x80]] @
     map (\<lambda>b. [CHR 0xE2, CHR 0x80, b])
       [CHR 0x80, CHR 0x81, CHR 0x82, CHR 0x83, CHR 0x84, CHR 0x85, CHR 0x86, CHR 0x87,
        CHR 0x88, CHR 0x89, CHR 0x8A, CHR 0xA8, CHR 0xA9, CHR 0xAF] @
     [[CHR 0xE2, CHR 0x81, CHR 0x9F], [CHR 0xE3, CHR 0x80, CHR 0x80],
      [CHR 0xEF, CHR 0xBB, CHR 0xBF]]"

text \<open>
  The number of bytes of the character of \<open>pats\<close> that a text begins with (0 when it
  begins with none), and where a run of such characters at the beginning of a text can
  end: after its first character, after its second, and so on.
\<close>

definition width_of :: "string list \<Rightarrow> string \<Rightarrow> nat" where
  "width_of pats s =
     (case find (\<lambda>w. take (length w) s = w) pats of None \<Rightarrow> 0 | Some w \<Rightarrow> length w)"

lemma width_of_Nil: "width_of pats [] = 0"
  by (induction pats) (auto simp add: width_of_def)

function run_ends :: "string list \<Rightarrow> string \<Rightarrow> nat list" where
  "run_ends pats s =
     (let w = width_of pats s
      in if w = 0 then [] else w # map (\<lambda>k. w + k) (run_ends pats (drop w s)))"
  by pat_completeness auto
termination
proof (relation "measure (\<lambda>(pats, s). length s)")
  show "wf (measure (\<lambda>(pats, s). length s))" by simp
next
  fix pats s w
  assume "w = width_of pats s" "w \<noteq> 0"
  then have "s \<noteq> []" using width_of_Nil by auto
  then show "((pats, drop w s), (pats, s)) \<in> measure (\<lambda>(pats, s). length s)"
    using \<open>w \<noteq> 0\<close> by simp
qed

declare run_ends.simps [simp del]

definition is_digit :: "char \<Rightarrow> bool" where
  "is_digit c = (c \<in> set ''0123456789'')"

definition digit_value :: "char \<Rightarrow> int" where
  "digit_value c = int (of_char c) - 48"

text \<open>\<^verbatim>\<open>Number(s)\<close> of a string of decimal digits.\<close>

definition js_Number :: "string \<Rightarrow> int" where
  "js_Number s = foldl (\<lambda>a c. 10 * a + digit_value c) 0 s"

definition startsWith :: "string \<Rightarrow> string \<Rightarrow> bool" where
  "startsWith s p = (take (length p) s = p)"

text \<open>
  \<^verbatim>\<open>s.trim()\<close> takes the longest run of white space off either end; at the end of the
  text the bytes are read backwards.
\<close>

definition trimStart :: "string \<Rightarrow> string" where
  "trimStart s = drop (last (0 # run_ends white_space s)) s"

definition trimEnd :: "string \<Rightarrow> string" where
  "trimEnd s = rev (drop (last (0 # run_ends (map rev white_space) (rev s))) (rev s))"

definition trim :: "string \<Rightarrow> string" where
  "trim s = trimEnd (trimStart s)"

text \<open>
  \<^verbatim>\<open>s.toLowerCase()\<close>, as far as the handler looks at its result, which it compares with
  four words of ASCII letters: a letter of ASCII becomes its small letter; a character
  outside ASCII is left as it is, since none of them becomes a text of ASCII letters that
  is part of one of the four words (only U+212A, the Kelvin sign, becomes an ASCII letter,
  \<^verbatim>\<open>k\<close>, which none of the words has).
\<close>

definition lower_char :: "char \<Rightarrow> char" where
  "lower_char c =
     (case map_of (zip ''ABCDEFGHIJKLMNOPQRSTUVWXYZ'' ''abcdefghijklmnopqrstuvwxyz'') c of
        None \<Rightarrow> c | Some l \<Rightarrow> l)"

definition toLowerCase :: "string \<Rightarrow> string" where
  "toLowerCase s = map lower_char s"

text \<open>
  \<^verbatim>\<open>s.split(/ +/)\<close>: \<open>split_spaces cur s\<close> has read \<open>cur\<close> of the current piece; a run of
  spaces ends a piece, and a run at either end leaves an empty piece there.
\<close>

fun split_spaces :: "string \<Rightarrow> string \<Rightarrow> string list" where
  "split_spaces cur [] = [cur]"
| "split_spaces cur (c # cs) =
     (if c = CHR '' '' then
        (case cs of
           d # ds \<Rightarrow> if d = CHR '' '' then split_spaces cur cs else cur # split_spaces [] cs
         | [] \<Rightarrow> cur # split_spaces [] cs)
      else split_spaces (cur @ [c]) cs)"

text \<open>
  \<^verbatim>\<open>parseInt(s, 10)\<close>: leading white space, an optional sign, then the longest run of
  decimal digits; what follows the digits is ignored; no digit is \<^verbatim>\<open>NaN\<close>. (JavaScript
  rounds an integer beyond \<open>2\<^sup>5\<^sup>3\<close> to a double; the handler compares the result with the
  length of the store only, which comes out the same.)
\<close>

definition parseInt :: "string \<Rightarrow> int option" where
  "parseInt s =
     (let s1 = trimStart s;
          sign = (if take 1 s1 = ''-'' then - 1 else 1);
          s2 = (if take 1 s1 = ''-'' \<or> take 1 s1 = ''+'' then drop 1 s1 else s1);
          ds = takeWhile is_digit s2
      in if ds = [] then None else Some (sign * js_Number ds))"


subsection \<open>JavaScript dates\<close>

text \<open>
  \<^verbatim>\<open>new Date(year, month, date, hours, minutes, seconds)\<close> after ECMA-262: the components
  are not range-checked (\<open>MakeDay\<close> carries a month outside 0..11 into the year, and a day
  of the month, an hour, a minute or a second of any size is added as it is); the local
  time is turned into UTC by \<open>utc\<close>, the time zone of the process; the time value is
  \<^verbatim>\<open>NaN\<close> only beyond 8.64e15 ms from the epoch.
\<close>

definition DayFromYear :: "int \<Rightarrow> int" where
  "DayFromYear y = 365 * (y - 1970) + (y - 1969) div 4 - (y - 1901) div 100 + (y - 1601) div 400"

definition InLeapYear :: "int \<Rightarrow> bool" where
  "InLeapYear y = (y mod 4 = 0 \<and> (y mod 100 \<noteq> 0 \<or> y mod 400 = 0))"

definition DaysBeforeMonth :: "int \<Rightarrow> nat \<Rightarrow> int" where
  "DaysBeforeMonth y m =
     sum_list (take m [31, if InLeapYear y then 29 else 28, 31, 30, 31, 30, 31, 31, 30, 31, 30, 31])"

definition MakeDay :: "int \<Rightarrow> int \<Rightarrow> int \<Rightarrow> int" where
  "MakeDay year month date =
     (let ym = year + month div 12;
          mn = nat (month mod 12)
      in DayFromYear ym + DaysBeforeMonth ym mn + date - 1)"

definition MakeTime :: "int \<Rightarrow> int \<Rightarrow> int \<Rightarrow> int \<Rightarrow> int" where
  "MakeTime hour minute sec ms = hour * 3600000 + minute * 60000 + sec * 1000 + ms"

definition MakeDate :: "int \<Rightarrow> int \<Rightarrow> int" where
  "MakeDate day time = day * 86400000 + time"

definition TimeClip :: "int \<Rightarrow> int option" where
  "TimeClip t = (if \<bar>t\<bar> > 8640000000000000 then None else Some t)"

definition new_Date :: "(int \<Rightarrow> int) \<Rightarrow> int \<Rightarrow> int \<Rightarrow> int \<Rightarrow> int \<Rightarrow> int \<Rightarrow> int \<Rightarrow> int option" where
  "new_Date utc year month date hour minute sec =
     (let yr = (if 0 \<le> year \<and> year \<le> 99 then 1900 + year else year)
      in TimeClip (utc (MakeDate (MakeDay yr month date) (MakeTime hour minute sec 0))))"

subsection \<open>Regular expressions\<close>

text \<open>
  The fragment of JavaScript's regular expressions that the bot uses, matched as the
  language defines it: by backtracking, greedy alternatives first. A match state is the
  captures so far, the index reached and the text that remains. \<open>Cls\<close>, \<open>Times\<close>,
  \<open>Many1\<close> and \<open>Many0\<close> are a class of single bytes once, a number of times, at least once
  and any number of times; \<open>Spaces n\<close> is \<^verbatim>\<open>\s\<close> at least \<open>n\<close> times. A class that is all
  bytes but an ASCII one takes a character outside ASCII byte by byte.
\<close>

datatype regex =
    Bol
  | Eol
  | Lit string
  | Cls "char \<Rightarrow> bool"
  | Times nat "char \<Rightarrow> bool"
  | Many1 "char \<Rightarrow> bool"
  | Many0 "char \<Rightarrow> bool"
  | Spaces nat
  | Opt regex
  | Cat regex regex
  | Group nat regex

type_synonym captures = "nat \<Rightarrow> string option"

fun rmatch :: "regex \<Rightarrow> captures \<times> nat \<times> string \<Rightarrow> (captures \<times> nat \<times> string) list" where
  "rmatch Bol (cs, i, s) = (if i = 0 then [(cs, i, s)] else [])"
| "rmatch Eol (cs, i, s) = (if s = [] then [(cs, i, s)] else [])"
| "rmatch (Lit l) (cs, i, s) =
     (if take (length l) s = l then [(cs, i + length l, drop (length l) s)] else [])"
| "rmatch (Cls p) (cs, i, s) =
     (case s of [] \<Rightarrow> [] | c # r \<Rightarrow> if p c then [(cs, Suc i, r)] else [])"
| "rmatch (Times n p) (cs, i, s) =
     (if n \<le> length s \<and> list_all p (take n s) then [(cs, i + n, drop n s)] else [])"
| "rmatch (Many1 p) (cs, i, s) =
     map (\<lambda>k. (cs, i + k, drop k s)) (rev [1..<Suc (length (takeWhile p s))])"
| "rmatch (Many0 p) (cs, i, s) =
     map (\<lambda>k. (cs, i + k, drop k s)) (rev [0..<Suc (length (takeWhile p s))])"
| "rmatch (Spaces n) (cs, i, s) =
     map (\<lambda>k. (cs, i + k, drop k s)) (rev (drop n (0 # run_ends white_space s)))"
| "rmatch (Opt r) st = rmatch r st @ [st]"
| "rmatch (Cat a b) st = concat (map (rmatch b) (rmatch a st))"
| "rmatch (Group n r) (cs, i, s) =
     map (\<lambda>(cs', j, s'). (cs'(n \<mapsto> take (j - i) s), j, s')) (rmatch r (cs, i, s))"

fun cats :: "regex list \<Rightarrow> regex" where
  "cats [] = Lit []"
| "cats [r] = r"
| "cats (r # rs) = Cat r (cats rs)"

text \<open>
  \<^verbatim>\<open>s.match(r)\<close> for a regular expression without flags: the first index from which the
  expression matches, with the captures of the first way it matches there.
\<close>

definition exec_at :: "regex \<Rightarrow> string \<Rightarrow> nat \<Rightarrow> captures option" where
  "exec_at r s i =
     (case rmatch r (Map.empty, i, drop i s) of
        [] \<Rightarrow> None
      | (cs, j, rest) # other \<Rightarrow> Some (cs(0 \<mapsto> take (j - i) (drop i s))))"

definition js_match :: "string \<Rightarrow> regex \<Rightarrow> captures option" where
  "js_match s r =
     (case List.map_filter (exec_at r s) [0..<Suc (length s)] of
        [] \<Rightarrow> None
      | m # other \<Rightarrow> Some m)"

text \<open>\<^verbatim>\<open>s.split(sep)\<close> at a separator of one character.\<close>

fun split_char :: "char \<Rightarrow> string \<Rightarrow> string \<Rightarrow> string list" where
  "split_char sep cur [] = [cur]"
| "split_char sep cur (c # cs) =
     (if c = sep then cur # split_char sep [] cs else split_char sep (cur @ [c]) cs)"

definition dquote :: char where
  "dquote = CHR 0x22"

text \<open>
  \<^verbatim>\<open>/^!countdown\s+"([^"]+)"\s+(\d{4}-\d{2}-\d{2})(?:\s+([0-2]?\d:[0-5]\d(?::[0-5]\d)?))?\s*$/\<close>
\<close>

definition countdown_regex :: regex where
  "countdown_regex =
     cats [Bol, Lit ''!countdown'', Spaces 1,
           Lit [dquote], Group 1 (Many1 (\<lambda>c. c \<noteq> dquote)), Lit [dquote], Spaces 1,
           Group 2 (cats [Times 4 is_digit, Lit ''-'', Times 2 is_digit, Lit ''-'',
                          Times 2 is_digit]),
           Opt (cats [Spaces 1,
                      Group 3 (cats [Opt (Cls (\<lambda>c. c \<in> set ''012'')), Cls is_digit, Lit '':'',
                                     Cls (\<lambda>c. c \<in> set ''012345''), Cls is_digit,
                                     Opt (cats [Lit '':'', Cls (\<lambda>c. c \<in> set ''012345''),
                                                Cls is_digit])])]),
           Spaces 0, Eol]"

subsection \<open>Records, embeds and the state of the bot\<close>

record countdown =
  name :: string
  targetDate :: int
  channelId :: string
  messageId :: string
  createdBy :: string
  createdAt :: int

text \<open>
  An embed as the bot fills it: colour, title, description, footer and the fields of the
  list view. Its timestamp (\<^verbatim>\<open>setTimestamp()\<close>, one more reading of the clock) is left
  out. The builder of the library checks what it is given (a title of more than 256
  characters, for one, makes \<^verbatim>\<open>setTitle\<close> throw); whether the calls that build an embed
  return or throw is an answer of the outside.
\<close>

record embed =
  color :: string
  title :: string
  description :: string
  footer :: "string option"
  embed_fields :: "(string \<times> string) list"

text \<open>A thrown error, with its message.\<close>

datatype exn = Exn string

fun exn_message :: "exn \<Rightarrow> string" where
  "exn_message (Exn m) = m"

datatype console_line = ConsoleLog string | ConsoleError string exn

text \<open>
  The file \<^verbatim>\<open>countdowns.json\<close>: absent, present but not readable, or present with its
  text.
\<close>

datatype file_state = Missing | Unreadable exn | Content string

text \<open>What the bot did on the chat platform: a reply to a message, a message sent to a
  channel, a reaction to a message, an edit of the message \<open>messageId\<close> in \<open>channelId\<close>.\<close>

datatype action =
    Reply string
  | Send string embed
  | React string
  | Edit string string embed

record bot =
  countdowns :: "countdown list"
  countdowns_file :: file_state
  activity :: "string option"
  console :: "console_line list"
  outbox :: "action list"

subsection \<open>Saving\<close>

definition newline :: char where
  "newline = CHR 0x0A"

definition backslash :: char where
  "backslash = CHR 0x5C"

definition hex_char :: "nat \<Rightarrow> char" where
  "hex_char d = ''0123456789abcdef'' ! d"

text \<open>\<^verbatim>\<open>JSON.stringify\<close> of a string (\<open>QuoteJSONString\<close> of ECMA-262).\<close>

definition quote_char :: "char \<Rightarrow> string" where
  "quote_char c =
     (if c = CHR 0x08 then [backslash, CHR ''b'']
      else if c = CHR 0x09 then [backslash, CHR ''t'']
      else if c = CHR 0x0A then [backslash, CHR ''n'']
      else if c = CHR 0x0C then [backslash, CHR ''f'']
      else if c = CHR 0x0D then [backslash, CHR ''r'']
      else if c = dquote then [backslash, dquote]
      else if c = backslash then [backslash, backslash]
      else if (of_char c :: nat) < 32
      then [backslash, CHR ''u'', CHR ''0'', CHR ''0'',
            hex_char (of_char c div 16), hex_char (of_char c mod 16)]
      else [c])"

definition quote_string :: "string \<Rightarrow> string" where
  "quote_string s = [dquote] @ concat (map quote_char s) @ [dquote]"

text \<open>
  \<^verbatim>\<open>JSON.stringify(countdowns, null, 2)\<close> for a list of countdown records: the object
  literal of the create command fixes the order of the properties; the indentation grows
  by two spaces a level, so the records stand at two spaces and their properties at four.
\<close>

definition stringify_member :: "string \<Rightarrow> string \<Rightarrow> string" where
  "stringify_member key text = quote_string key @ '': '' @ text"

definition stringify_countdown :: "countdown \<Rightarrow> string" where
  "stringify_countdown cd =
     ''{'' @ [newline] @ ''    '' @
     join ('','' @ [newline] @ ''    '')
       [stringify_member ''name'' (quote_string (name cd)),
        stringify_member ''targetDate'' (js_string_of_int (targetDate cd)),
        stringify_member ''channelId'' (quote_string (channelId cd)),
        stringify_member ''messageId'' (quote_string (messageId cd)),
        stringify_member ''createdBy'' (quote_string (createdBy cd)),
        stringify_member ''createdAt'' (js_string_of_int (createdAt cd))] @
     [newline] @ ''  '' @ ''}''"

definition JSON_stringify :: "countdown list \<Rightarrow> string" where
  "JSON_stringify cds =
     (if cds = [] then ''[]''
      else ''['' @ [newline] @ ''  '' @
           join ('','' @ [newline] @ ''  '') (map stringify_countdown cds) @
           [newline] @ '']'')"

text \<open>
  \<^verbatim>\<open>saveCountdowns()\<close>; \<open>write_result\<close> is what \<^verbatim>\<open>fs.writeFileSync\<close> does: it returns
  (\<open>None\<close>) or throws.
\<close>

definition saveCountdowns :: "exn option \<Rightarrow> bot \<Rightarrow> bot" where
  "saveCountdowns write_result st =
     (case write_result of
        None \<Rightarrow>
          st\<lparr>countdowns_file := Content (JSON_stringify (countdowns st)),
             console := console st @
               [ConsoleLog (''Saved '' @ show_nat (length (countdowns st)) @
                            '' countdown(s) to file.'')]\<rparr>
      | Some err \<Rightarrow>
          st\<lparr>console := console st @ [ConsoleError ''Error saving countdowns:'' err]\<rparr>)"

text \<open>\<^verbatim>\<open>updateBotStatus()\<close>\<close>

definition updateBotStatus :: "bot \<Rightarrow> bot" where
  "updateBotStatus st =
     st\<lparr>activity := Some (show_nat (length (countdowns st)) @ '' countdown'' @
                           (if length (countdowns st) \<noteq> 1 then ''s'' else ''''))\<rparr>"

subsection \<open>The refresh cycle\<close>






definition stopwatch :: string where
  "stopwatch = [CHR 0xE2, CHR 0x8F, CHR 0xB1, CHR 0xEF, CHR 0xB8, CHR 0x8F]"







subsection \<open>The message handler\<close>

text \<open>
  An inbound message, with what the handler reads of it: \<^verbatim>\<open>message.author.bot\<close>,
  \<^verbatim>\<open>message.author.id\<close>, \<^verbatim>\<open>message.content\<close>, \<^verbatim>\<open>message.channel.id\<close> and
  \<^verbatim>\<open>message.member.permissions.has('ManageMessages')\<close> (the intents of the client give it
  the messages of guilds only, which come with their member).
\<close>

record message =
  author_bot :: bool
  author_id :: string
  content :: string
  channel_id :: string
  can_manage_messages :: bool

text \<open>
  What the outside answers during one run of the handler: the time zone and the locale of
  the process, the clock when the remaining time is computed and when the record is made,
  whether the calls that build an embed return (\<open>None\<close>) or throw, what
  \<^verbatim>\<open>message.channel.send\<close> does (it throws, or resolves to the new message with its id),
  what \<^verbatim>\<open>message.react\<close> and \<^verbatim>\<open>fs.writeFileSync\<close> do, and what other handlers did to the
  state while the handler waited for \<^verbatim>\<open>send\<close> and for \<^verbatim>\<open>react\<close>, the two calls it awaits.
  A reply or a message that the handler sends without waiting for it is recorded as sent;
  what becomes of it reaches no code of the bot.
\<close>

record outside =
  env_utc :: "int \<Rightarrow> int"
  env_locale :: "int \<Rightarrow> string"
  env_now :: int
  env_created :: int
  env_build :: "embed \<Rightarrow> exn option"
  env_send :: "exn + string"
  env_at_send :: "bot \<Rightarrow> bot"
  env_react :: "exn option"
  env_at_react :: "bot \<Rightarrow> bot"
  env_write :: "exn option"

definition prefix :: string where
  "prefix = ''!''"

definition reply :: "string \<Rightarrow> bot \<Rightarrow> bot" where
  "reply text st = st\<lparr>outbox := outbox st @ [Reply text]\<rparr>"

definition usage_reply :: string where
  \<open>usage_reply = ''Usage: `!countdown "Event Name" YYYY-MM-DD [HH:MM:SS]`''\<close>

definition invalid_date_reply :: string where
  "invalid_date_reply =
     ''Invalid date'' @ [CHR 0xE2, CHR 0x80, CHR 0x94] @ ''I couldn'' @
     [CHR 0xE2, CHR 0x80, CHR 0x99] @ ''t parse that. Please use YYYY-MM-DD [HH:MM:SS]''"

definition check_mark :: string where
  "check_mark = [CHR 0xE2, CHR 0x9C, CHR 0x85]"

text \<open>An element of an array taken apart with a default: \<^verbatim>\<open>[hour = 0, ...] = array\<close>.\<close>

definition element_or :: "'a \<Rightarrow> 'a list \<Rightarrow> nat \<Rightarrow> 'a" where
  "element_or d xs k = (case drop k xs of [] \<Rightarrow> d | x # rest \<Rightarrow> x)"

text \<open>
  The branch \<^verbatim>\<open>command === 'countdown'\<close>. A capture that took no part in the match is
  \<^verbatim>\<open>undefined\<close> (\<open>None\<close>); \<^verbatim>\<open>datePart.split\<close> of \<^verbatim>\<open>undefined\<close> would throw outside
  every \<^verbatim>\<open>try\<close> and end the run, and so does a throw of the calls that build the embed,
  which stand before the \<^verbatim>\<open>try\<close> block: the handler has done nothing then (what the
  runtime does with the error is left out). An array with fewer than three numbers leaves
  \<^verbatim>\<open>undefined\<close> to the date, which is then invalid. The record is pushed onto the array
  that the variable holds when \<^verbatim>\<open>send\<close> has resolved.
\<close>

definition create_countdown :: "outside \<Rightarrow> message \<Rightarrow> bot \<Rightarrow> bot" where
  "create_countdown env message st =
     (case js_match (content message) countdown_regex of
        None \<Rightarrow> reply usage_reply st
      | Some fullMatch \<Rightarrow>
          (case (fullMatch 1, fullMatch 2, fullMatch 3) of
             (Some eventName, Some datePart, timePart) \<Rightarrow>
               (let ymd = map js_Number (split_char CHR ''-'' [] datePart);
                    hms = map js_Number
                            (split_char CHR '':'' []
                               (case timePart of
                                  None \<Rightarrow> ''00:00:00''
                                | Some t \<Rightarrow> if t = [] then ''00:00:00'' else t));
                    hour = element_or 0 hms 0;
                    minute = element_or 0 hms 1;
                    second = element_or 0 hms 2;
                    date = (case ymd of
                              year # month # day # rest \<Rightarrow>
                                new_Date (env_utc env) year (month - 1) day hour minute second
                            | _ \<Rightarrow> None)
                in case date of
                     None \<Rightarrow> reply invalid_date_reply st
                   | Some target \<Rightarrow>
                       (let tr = getTimeRemaining target (env_now env);
                            initialDesc = formatTimeRemaining tr;
                            embed = \<lparr>color = ''#0099ff'',
                                     title = stopwatch @ '' '' @ eventName,
                                     description = ''Time remaining: **'' @ initialDesc @ ''**'',
                                     footer = Some (''Target: '' @ env_locale env target),
                                     embed_fields = []\<rparr>
                        in case env_build env embed of
                             Some err \<Rightarrow> st
                           | None \<Rightarrow>
                          (let st0 = env_at_send env st in
                           case env_send env of
                             Inl err \<Rightarrow>
                               reply (''An error occurred while creating the countdown: '' @
                                      exn_message err)
                                 (st0\<lparr>console := console st0 @
                                      [ConsoleError ''Error creating countdown:'' err]\<rparr>)
                           | Inr sent_id \<Rightarrow>
                               (let st1 = st0\<lparr>outbox := outbox st0 @
                                               [Send (channel_id message) embed]\<rparr>;
                                    st2 = st1\<lparr>countdowns := countdowns st1 @
                                            [\<lparr>name = eventName,
                                              targetDate = target,
                                              channelId = channel_id message,
                                              messageId = sent_id,
                                              createdBy = author_id message,
                                              createdAt = env_created env\<rparr>]\<rparr>;
                                    st3 = saveCountdowns (env_write env) st2;
                                    st4 = updateBotStatus st3;
                                    st5 = env_at_react env st4
                                in case env_react env of
                                     None \<Rightarrow> st5\<lparr>outbox := outbox st5 @ [React check_mark]\<rparr>
                                   | Some err \<Rightarrow>
                                       reply (''An error occurred while creating the countdown: '' @
                                              exn_message err)
                                         (st5\<lparr>console := console st5 @
                                              [ConsoleError ''Error creating countdown:'' err]\<rparr>)))))
           | _ \<Rightarrow> st))"

text \<open>
  The branch \<^verbatim>\<open>command === 'countdowns'\<close>; a throw of the calls that build the embed ends
  the run.
\<close>

definition list_countdowns :: "outside \<Rightarrow> message \<Rightarrow> bot \<Rightarrow> bot" where
  "list_countdowns env message st =
     (if length (countdowns st) = 0 then reply ''No active countdowns.'' st
      else
        let embed = \<lparr>color = ''#0099ff'',
                     title = ''Active Countdowns'',
                     description = ''Here are all the active countdowns:'',
                     footer = None,
                     embed_fields =
                       map (\<lambda>(i, cd).
                              (show_nat (i + 1) @ ''. '' @ name cd,
                               ''Time remaining: **'' @
                               formatTimeRemaining (getTimeRemaining (targetDate cd) (env_now env)) @
                               ''**'' @ [newline] @ ''Target: '' @ env_locale env (targetDate cd)))
                           (enumerate 0 (countdowns st))\<rparr>
        in case env_build env embed of
             Some err \<Rightarrow> st
           | None \<Rightarrow> st\<lparr>outbox := outbox st @ [Send (channel_id message) embed]\<rparr>)"

text \<open>The branch \<^verbatim>\<open>command === 'delcountdown'\<close>; \<open>args\<close> are the words after the command.\<close>

definition delete_countdown :: "outside \<Rightarrow> message \<Rightarrow> string list \<Rightarrow> bot \<Rightarrow> bot" where
  \<open>delete_countdown env message args st =
     (if (case args of [] \<Rightarrow> True | a # rest \<Rightarrow> a = [])
      then reply (''Please specify the index number of the countdown to delete. '' @
                  ''Use `!countdowns` to see the list.'') st
      else
        case parseInt (element_or [] args 0) of
          None \<Rightarrow> reply ''Invalid countdown index.'' st
        | Some n \<Rightarrow>
            (let idx = n - 1 in
             if idx < 0 \<or> idx \<ge> int (length (countdowns st))
             then reply ''Invalid countdown index.'' st
             else
               let cd = countdowns st ! nat idx in
               if createdBy cd \<noteq> author_id message \<and> \<not> can_manage_messages message
               then reply ''You can only delete countdowns that you created.'' st
               else
                 let st1 = st\<lparr>countdowns := take (nat idx) (countdowns st) @
                                               drop (nat idx + 1) (countdowns st)\<rparr>;
                     st2 = saveCountdowns (env_write env) st1;
                     st3 = updateBotStatus st2
                 in reply (''Countdown "'' @ name cd @ ''" has been deleted.'') st3))\<close>

text \<open>The branch \<^verbatim>\<open>command === 'help'\<close>.\<close>

definition help_command :: "outside \<Rightarrow> message \<Rightarrow> bot \<Rightarrow> bot" where
  \<open>help_command env message st =
     (let embed = \<lparr>color = ''#0099ff'',
                   title = ''Countdown Bot Help'',
                   description = ''Here are the available commands:'',
                   footer = Some ''Countdown Bot'',
                   embed_fields =
                     [(prefix @ ''countdown "Event Name" YYYY-MM-DD [HH:MM:SS]'',
                       ''Create a new countdown for an event''),
                      (prefix @ ''countdowns'', ''List all active countdowns''),
                      (prefix @ ''delcountdown <index>'',
                       ''Delete a countdown by its index number''),
                      (prefix @ ''help'', ''Show this help message'')]\<rparr>
      in case env_build env embed of
           Some err \<Rightarrow> st
         | None \<Rightarrow> st\<lparr>outbox := outbox st @ [Send (channel_id message) embed]\<rparr>)\<close>

text \<open>
  The handler of \<^verbatim>\<open>messageCreate\<close>. \<^verbatim>\<open>split\<close> returns at least one piece, which
  \<^verbatim>\<open>args.shift()\<close> takes as the command.
\<close>

definition messageCreate :: "outside \<Rightarrow> message \<Rightarrow> bot \<Rightarrow> bot" where
  "messageCreate env message st =
     (if author_bot message then st
      else if \<not> startsWith (content message) prefix then st
      else
        case split_spaces [] (trim (drop (length prefix) (content message))) of
          [] \<Rightarrow> st
        | first # args \<Rightarrow>
            (let command = toLowerCase first in
             if command = ''countdown'' then create_countdown env message st
             else if command = ''countdowns'' then list_countdowns env message st
             else if command = ''delcountdown'' then delete_countdown env message args st
             else if command = ''help'' then help_command env message st
             else st))"

subsection \<open>Loading\<close>

text \<open>
  A value of JavaScript as \<^verbatim>\<open>JSON.parse\<close> returns it. An object keeps its properties in
  the order of their first occurrence, a later value for the same name replacing the
  earlier one.
\<close>

datatype json =
    JNull
  | JBool bool
  | JNum rat
  | JStr string
  | JArr "json list"
  | JObj "(string \<times> json) list"

definition is_json_space :: "char \<Rightarrow> bool" where
  "is_json_space c = (c \<in> set [CHR 0x09, CHR 0x0A, CHR 0x0D, CHR 0x20])"

definition skip_ws :: "string \<Rightarrow> string" where
  "skip_ws s = dropWhile is_json_space s"

definition hex_value :: "char \<Rightarrow> nat option" where
  "hex_value c =
     map_of (zip ''0123456789abcdefABCDEF''
                 [0, 1, 2, 3, 4, 5, 6, 7, 8, 9, 10, 11, 12, 13, 14, 15, 10, 11, 12, 13, 14, 15]) c"

definition hex4 :: "char \<Rightarrow> char \<Rightarrow> char \<Rightarrow> char \<Rightarrow> nat option" where
  "hex4 a b c d =
     (case (hex_value a, hex_value b, hex_value c, hex_value d) of
        (Some h3, Some h2, Some h1, Some h0) \<Rightarrow> Some (((h3 * 16 + h2) * 16 + h1) * 16 + h0)
      | _ \<Rightarrow> None)"

text \<open>The bytes of the code unit \<open>n\<close> (below \<open>2\<^sup>1\<^sup>6\<close>) in UTF-8.\<close>

definition utf8_encode :: "nat \<Rightarrow> string" where
  "utf8_encode n =
     (if n < 128 then [char_of n]
      else if n < 2048 then [char_of (192 + n div 64), char_of (128 + n mod 64)]
      else [char_of (224 + n div 4096), char_of (128 + n div 64 mod 64), char_of (128 + n mod 64)])"

definition escape_char :: "char \<Rightarrow> char option" where
  "escape_char e =
     map_of [(dquote, dquote), (backslash, backslash), (CHR ''/'', CHR ''/''),
             (CHR ''b'', CHR 0x08), (CHR ''f'', CHR 0x0C), (CHR ''n'', CHR 0x0A),
             (CHR ''r'', CHR 0x0D), (CHR ''t'', CHR 0x09)] e"

text \<open>The characters of a string after its opening quote, up to the closing quote.\<close>

fun parse_chars :: "string \<Rightarrow> (string \<times> string) option" where
  "parse_chars [] = None"
| "parse_chars (c # cs) =
     (if c = dquote then Some ([], cs)
      else if c = backslash then
        (case cs of
           [] \<Rightarrow> None
         | e # r \<Rightarrow>
             if e = CHR ''u'' then
               (case r of
                  h3 # h2 # h1 # h0 # r' \<Rightarrow>
                    (case hex4 h3 h2 h1 h0 of
                       None \<Rightarrow> None
                     | Some n \<Rightarrow>
                         map_option (\<lambda>(s, t). (utf8_encode n @ s, t)) (parse_chars r'))
                | _ \<Rightarrow> None)
             else
               (case escape_char e of
                  None \<Rightarrow> None
                | Some x \<Rightarrow> map_option (\<lambda>(s, t). (x # s, t)) (parse_chars r)))
      else if (of_char c :: nat) < 32 then None
      else map_option (\<lambda>(s, t). (c # s, t)) (parse_chars cs))"

text \<open>
  A number: an optional minus, an integer part without a leading zero, an optional
  fraction, an optional exponent. Each part returns what it read and the text after it.
\<close>

definition parse_int_part :: "string \<Rightarrow> (string \<times> string) option" where
  "parse_int_part s =
     (let ip = (if take 1 s = ''0'' then ''0'' else takeWhile is_digit s)
      in if ip = [] then None else Some (ip, drop (length ip) s))"

definition parse_frac_part :: "string \<Rightarrow> (string \<times> string) option" where
  "parse_frac_part s =
     (if take 1 s = ''.''
      then (let fp = takeWhile is_digit (drop 1 s)
            in if fp = [] then None else Some (fp, drop (length fp) (drop 1 s)))
      else Some ([], s))"

definition parse_exp_part :: "string \<Rightarrow> (int \<times> string) option" where
  "parse_exp_part s =
     (if take 1 s = ''e'' \<or> take 1 s = ''E''
      then (let r = drop 1 s;
                r1 = (if take 1 r = ''-'' \<or> take 1 r = ''+'' then drop 1 r else r);
                ep = takeWhile is_digit r1
            in if ep = [] then None
               else Some (if take 1 r = ''-'' then - js_Number ep else js_Number ep,
                          drop (length ep) r1))
      else Some (0, s))"

definition parse_number :: "string \<Rightarrow> (rat \<times> string) option" where
  "parse_number s =
     (case parse_int_part (if take 1 s = ''-'' then drop 1 s else s) of
        None \<Rightarrow> None
      | Some (ip, s2) \<Rightarrow>
          (case parse_frac_part s2 of
             None \<Rightarrow> None
           | Some (fp, s3) \<Rightarrow>
               (case parse_exp_part s3 of
                  None \<Rightarrow> None
                | Some (e, s4) \<Rightarrow>
                    Some ((if take 1 s = ''-'' then - 1 else 1) *
                          (of_int (js_Number ip) + of_int (js_Number fp) / 10 ^ length fp) *
                          (if e < 0 then 1 / 10 ^ nat (- e) else 10 ^ nat e),
                          s4))))"

definition obj_put :: "(string \<times> json) list \<Rightarrow> string \<times> json \<Rightarrow> (string \<times> json) list" where
  "obj_put kvs kv =
     (if fst kv \<in> fst ` set kvs
      then map (\<lambda>(k, v). if k = fst kv then kv else (k, v)) kvs
      else kvs @ [kv])"

lemma skip_ws_shorter: "skip_ws s = c # r \<Longrightarrow> length r < length s"
proof -
  assume a: "skip_ws s = c # r"
  have "length (skip_ws s) \<le> length s"
    by (simp add: skip_ws_def length_dropWhile_le)
  then show ?thesis by (simp add: a)
qed

text \<open>
  A value, the elements of an array after its first bracket, the members of an object
  after its first brace, each after optional white space. The tests on the lengths always
  succeed (a value is not empty): they are there for the termination proof.
\<close>

function parse_value :: "string \<Rightarrow> (json \<times> string) option"
  and parse_elements :: "string \<Rightarrow> (json list \<times> string) option"
  and parse_members :: "string \<Rightarrow> ((string \<times> json) list \<times> string) option"
where
  "parse_value s =
     (case skip_ws s of
        [] \<Rightarrow> None
      | c # r \<Rightarrow>
          if c = CHR ''{'' then
            (case skip_ws r of
               [] \<Rightarrow> None
             | d # r2 \<Rightarrow>
                 if d = CHR ''}'' then Some (JObj [], r2)
                 else map_option (\<lambda>(ms, t). (JObj (foldl obj_put [] ms), t))
                        (parse_members r))
          else if c = CHR ''['' then
            (case skip_ws r of
               [] \<Rightarrow> None
             | d # r2 \<Rightarrow>
                 if d = CHR '']'' then Some (JArr [], r2)
                 else map_option (\<lambda>(vs, t). (JArr vs, t)) (parse_elements r))
          else if c = dquote then map_option (\<lambda>(x, t). (JStr x, t)) (parse_chars r)
          else if take 4 (c # r) = ''true'' then Some (JBool True, drop 4 (c # r))
          else if take 5 (c # r) = ''false'' then Some (JBool False, drop 5 (c # r))
          else if take 4 (c # r) = ''null'' then Some (JNull, drop 4 (c # r))
          else map_option (\<lambda>(q, t). (JNum q, t)) (parse_number (c # r)))"
| "parse_elements s =
     (case parse_value s of
        None \<Rightarrow> None
      | Some (v, r) \<Rightarrow>
          (case skip_ws r of
             [] \<Rightarrow> None
           | c # r2 \<Rightarrow>
               if c = CHR '']'' then Some ([v], r2)
               else if c = CHR '','' \<and> length r2 < length s
               then map_option (\<lambda>(vs, t). (v # vs, t)) (parse_elements r2)
               else None))"
| "parse_members s =
     (case skip_ws s of
        [] \<Rightarrow> None
      | q # r \<Rightarrow>
          if q = dquote then
            (case parse_chars r of
               None \<Rightarrow> None
             | Some (k, r1) \<Rightarrow>
                 (case skip_ws r1 of
                    [] \<Rightarrow> None
                  | colon # r2 \<Rightarrow>
                      if colon = CHR '':'' \<and> length r2 < length s then
                        (case parse_value r2 of
                           None \<Rightarrow> None
                         | Some (v, r3) \<Rightarrow>
                             (case skip_ws r3 of
                                [] \<Rightarrow> None
                              | c # r4 \<Rightarrow>
                                  if c = CHR ''}'' then Some ([(k, v)], r4)
                                  else if c = CHR '','' \<and> length r4 < length s
                                  then map_option (\<lambda>(ms, t). ((k, v) # ms, t))
                                         (parse_members r4)
                                  else None))
                      else None))
          else None)"
  by pat_completeness auto
termination
  by (relation "measure (\<lambda>x. case x of
                   Inl s \<Rightarrow> 2 * length s
                 | Inr (Inl s) \<Rightarrow> 2 * length s + 1
                 | Inr (Inr s) \<Rightarrow> 2 * length s + 1)")
     (auto dest: skip_ws_shorter)

declare parse_value.simps [simp del] parse_elements.simps [simp del] parse_members.simps [simp del]

text \<open>\<^verbatim>\<open>JSON.parse(data)\<close>: the value, or the syntax error it throws.\<close>

definition JSON_parse :: "string \<Rightarrow> exn + json" where
  "JSON_parse s =
     (case parse_value s of
        None \<Rightarrow> Inl (Exn ''SyntaxError'')
      | Some (v, r) \<Rightarrow> if skip_ws r = [] then Inr v else Inl (Exn ''SyntaxError''))"


text \<open>
  The number that \<^verbatim>\<open>JSON.parse\<close> makes of a numeral is the double nearest to it, ties
  to the even one (\<open>None\<close> for an infinite one); a value \<open>JNum q\<close> stands for the double
  nearest to \<open>q\<close>.
\<close>

definition pow2 :: "int \<Rightarrow> rat" where
  "pow2 e = (if 0 \<le> e then 2 ^ nat e else 1 / 2 ^ nat (- e))"

definition pow10 :: "int \<Rightarrow> rat" where
  "pow10 e = (if 0 \<le> e then 10 ^ nat e else 1 / 10 ^ nat (- e))"

fun bit_length :: "nat \<Rightarrow> nat" where
  "bit_length n = (if n = 0 then 0 else Suc (bit_length (n div 2)))"

declare bit_length.simps [simp del]

definition round_even :: "rat \<Rightarrow> int" where
  "round_even q =
     (let f = \<lfloor>q\<rfloor>; r = q - of_int f
      in if r < 1 / 2 then f else if 1 / 2 < r then f + 1 else if even f then f else f + 1)"

text \<open>The integers \<open>e\<close> with \<open>2\<^sup>e \<le> q < 2\<^sup>e\<^sup>+\<^sup>1\<close> and with \<open>10\<^sup>e \<le> q < 10\<^sup>e\<^sup>+\<^sup>1\<close>, for \<open>0 < q\<close>.\<close>

definition binary_exponent :: "rat \<Rightarrow> int" where
  "binary_exponent q =
     (case quotient_of q of
        (a, b) \<Rightarrow>
          (let e = int (bit_length (nat a)) - int (bit_length (nat b))
           in if pow2 e \<le> q then e else e - 1))"

definition decimal_exponent :: "rat \<Rightarrow> int" where
  "decimal_exponent q =
     (case quotient_of q of
        (a, b) \<Rightarrow>
          (let e = int (length (show_nat (nat a))) - int (length (show_nat (nat b)))
           in if pow10 e \<le> q then e else e - 1))"

definition double_of :: "rat \<Rightarrow> rat option" where
  "double_of q =
     (if q = 0 then Some 0
      else
        let p = max (binary_exponent \<bar>q\<bar> - 52) (- 1074);
            d = of_int (round_even (\<bar>q\<bar> / pow2 p)) * pow2 p
        in if pow2 1024 \<le> d then None else Some (if q < 0 then - d else d))"

text \<open>
  \<^verbatim>\<open>String(x)\<close> of a number (\<open>Number::toString\<close> of ECMA-262): the digits are the fewest,
  \<open>k\<close> of them, that give back the double \<open>d\<close> when read as \<open>s \<times> 10\<^sup>n\<^sup>-\<^sup>k\<close>, and among two
  such \<open>s\<close> the one nearer to \<open>d\<close>; seventeen digits always do.
\<close>

definition shortest :: "rat \<Rightarrow> nat \<Rightarrow> (int \<times> int) option" where
  "shortest d k =
     (let n = decimal_exponent d + 1;
          scale = pow10 (n - int k);
          lo = \<lfloor>d / scale\<rfloor>;
          ok = filter (\<lambda>s. double_of (of_int s * scale) = Some d) [lo, lo + 1]
      in case ok of
           [] \<Rightarrow> None
         | [s] \<Rightarrow> Some (s, n)
         | s # t # rest \<Rightarrow>
             (let ds = \<bar>of_int s * scale - d\<bar>; dt = \<bar>of_int t * scale - d\<bar>
              in Some (if ds < dt then s else if dt < ds then t else if even s then s else t, n)))"

definition digits_of :: "rat \<Rightarrow> string \<times> int" where
  "digits_of d =
     (case List.map_filter (\<lambda>k. map_option (\<lambda>(s, n). (s, n, k)) (shortest d k)) [1..<18] of
        [] \<Rightarrow> ([], 0)
      | (s, n, k) # rest \<Rightarrow>
          if s = 10 ^ k then (show_nat (nat (s div 10)), n + 1) else (show_nat (nat s), n))"

definition number_text :: "rat \<Rightarrow> string" where
  "number_text q =
     (case double_of \<bar>q\<bar> of
        None \<Rightarrow> (if q < 0 then ''-Infinity'' else ''Infinity'')
      | Some d \<Rightarrow>
          if d = 0 then ''0''
          else
            (case digits_of d of
               (ds, n) \<Rightarrow>
                 (let k = int (length ds);
                      body =
                        (if k \<le> n \<and> n \<le> 21 then ds @ replicate (nat (n - k)) CHR ''0''
                         else if 0 < n \<and> n \<le> 21 then take (nat n) ds @ ''.'' @ drop (nat n) ds
                         else if - 6 < n \<and> n \<le> 0
                         then ''0.'' @ replicate (nat (- n)) CHR ''0'' @ ds
                         else
                           take 1 ds @ (if k = 1 then [] else ''.'' @ drop 1 ds) @ ''e'' @
                           (if n - 1 < 0 then ''-'' else ''+'') @ show_nat (nat \<bar>n - 1\<bar>))
                  in if q < 0 then CHR ''-'' # body else body)))"

text \<open>
  The text of a value in a template (\<open>ToString\<close>), \<open>None\<close> when the conversion throws a
  \<^verbatim>\<open>TypeError\<close>: an array is its elements joined by commas, \<^verbatim>\<open>null\<close> among them as the
  empty text; an object is \<^verbatim>\<open>[object Object]\<close>, unless it has a property \<^verbatim>\<open>toString\<close> of
  its own, which is no function and leaves the object without a way to a text.
\<close>

fun to_text :: "json \<Rightarrow> string option" where
  "to_text JNull = Some ''null''"
| "to_text (JBool b) = Some (if b then ''true'' else ''false'')"
| "to_text (JNum q) = Some (number_text q)"
| "to_text (JStr s) = Some s"
| "to_text (JArr xs) =
     map_option (join '','')
       (those (map (\<lambda>x. case x of JNull \<Rightarrow> Some [] | _ \<Rightarrow> to_text x) xs))"
| "to_text (JObj kvs) =
     (if ''toString'' \<in> fst ` set kvs then None else Some ''[object Object]'')"

text \<open>
  The text of \<^verbatim>\<open>countdowns.length\<close> in a template; reading the property of \<^verbatim>\<open>null\<close>
  throws. An array has the number of its elements and a string its length in UTF-16 code
  units; an object has the property if it has one of that name; another value has none,
  which prints \<^verbatim>\<open>undefined\<close>.
\<close>

definition utf16_length :: "string \<Rightarrow> nat" where
  "utf16_length s =
     length (filter (\<lambda>c. (of_char c :: nat) < 128 \<or> 192 \<le> (of_char c :: nat)) s) +
     length (filter (\<lambda>c. 240 \<le> (of_char c :: nat)) s)"

definition length_text :: "json \<Rightarrow> exn + string" where
  "length_text v =
     (case v of
        JNull \<Rightarrow> Inl (Exn ''TypeError'')
      | JArr xs \<Rightarrow> Inr (show_nat (length xs))
      | JStr s \<Rightarrow> Inr (show_nat (utf16_length s))
      | JObj kvs \<Rightarrow>
          (case map_of kvs ''length'' of
             None \<Rightarrow> Inr ''undefined''
           | Some l \<Rightarrow>
               (case to_text l of None \<Rightarrow> Inl (Exn ''TypeError'') | Some t \<Rightarrow> Inr t))
      | _ \<Rightarrow> Inr ''undefined'')"


text \<open>
  \<^verbatim>\<open>loadCountdowns()\<close> on the variable \<^verbatim>\<open>countdowns\<close> (a value of JavaScript) and the
  console: every error of the \<^verbatim>\<open>try\<close> block is caught, logged, and leaves the empty
  array.
\<close>

definition loadCountdowns ::
    "file_state \<Rightarrow> json \<times> console_line list \<Rightarrow> json \<times> console_line list" where
  "loadCountdowns stored memory =
     (case memory of
        (held, lines) \<Rightarrow>
          (case stored of
             Missing \<Rightarrow> (held, lines)
           | Unreadable err \<Rightarrow>
               (JArr [], lines @ [ConsoleError ''Error loading countdowns:'' err])
           | Content data \<Rightarrow>
               (case JSON_parse data of
                  Inl err \<Rightarrow> (JArr [], lines @ [ConsoleError ''Error loading countdowns:'' err])
                | Inr v \<Rightarrow>
                    (case length_text v of
                       Inl err \<Rightarrow>
                         (JArr [], lines @ [ConsoleError ''Error loading countdowns:'' err])
                     | Inr n \<Rightarrow>
                         (v, lines @ [ConsoleLog (''Loaded '' @ n @
                                                 '' countdown(s) from file.'')])))))"



text \<open>The value of JavaScript that a list of countdown records is.\<close>

definition json_of_countdown :: "countdown \<Rightarrow> json" where
  "json_of_countdown cd =
     JObj [(''name'', JStr (name cd)),
           (''targetDate'', JNum (of_int (targetDate cd))),
           (''channelId'', JStr (channelId cd)),
           (''messageId'', JStr (messageId cd)),
           (''createdBy'', JStr (createdBy cd)),
           (''createdAt'', JNum (of_int (createdAt cd)))]"

definition json_of_countdowns :: "countdown list \<Rightarrow> json" where
  "json_of_countdowns cds = JArr (map json_of_countdown cds)"

subsection \<open>Notions of the specification\<close>

text \<open>A text after which the number that \<^verbatim>\<open>JSON.parse\<close> reads cannot go on.\<close>

definition ends_number :: "string \<Rightarrow> bool" where
  "ends_number rest =
     (rest = [] \<or> (\<not> is_digit (hd rest) \<and> hd rest \<notin> {CHR ''.'', CHR ''e'', CHR ''E''}))"



definition running_embed :: "(int \<Rightarrow> string) \<Rightarrow> int \<Rightarrow> countdown \<Rightarrow> embed" where
  "running_embed toLocaleString now cd =
     \<lparr>color = ''#0099ff'',
      title = stopwatch @ '' '' @ name cd,
      description = ''Time remaining: **'' @
                    formatTimeRemaining (getTimeRemaining (targetDate cd) now) @ ''**'',
      footer = Some (''Target: '' @ toLocaleString (targetDate cd)),
      embed_fields = []\<rparr>"







subsection \<open>Example values\<close>

text \<open>
  A store of three records (the second made by another user), a message of a user without
  the management permission, and an outside in UTC where every call succeeds, the embeds
  are built and no other handler runs meanwhile.
\<close>

definition example_store :: bot where
  "example_store =
     \<lparr>countdowns =
        [\<lparr>name = ''A'', targetDate = 1800000000000, channelId = ''c'', messageId = ''m1'',
          createdBy = ''u1'', createdAt = 10\<rparr>,
         \<lparr>name = ''B'', targetDate = 1800000000000, channelId = ''c'', messageId = ''m2'',
          createdBy = ''u2'', createdAt = 20\<rparr>,
         \<lparr>name = ''C'', targetDate = 1800000000000, channelId = ''c'', messageId = ''m3'',
          createdBy = ''u1'', createdAt = 30\<rparr>],
      countdowns_file = Missing, activity = None, console = [], outbox = []\<rparr>"

definition example_message :: "string \<Rightarrow> string \<Rightarrow> message" where
  "example_message user text =
     \<lparr>author_bot = False, author_id = user, content = text, channel_id = ''c'',
      can_manage_messages = False\<rparr>"

definition example_outside :: outside where
  "example_outside =
     \<lparr>env_utc = (\<lambda>t. t), env_locale = js_string_of_int, env_now = 1700000000000,
      env_created = 1700000000500, env_build = (\<lambda>e. None),
      env_send = Inr ''m9'', env_at_send = (\<lambda>st. st),
      env_react = None, env_at_react = (\<lambda>st. st), env_write = None\<rparr>"




section \<open>Properties\<close>

subsection \<open>The duration calculator\<close>

lemma floor_js_rem:
  assumes "0 \<le> t" "0 < k" "0 < m"
  shows "Math_floor (js_rem (of_int t / of_int k) (of_int m)) = (t div k) mod m"
proof -
  let ?x = "(of_int t / of_int k) :: rat"
  have x0: "0 \<le> ?x / of_int m" using assms by simp
  have q: "\<lfloor>?x / of_int m\<rfloor> = t div (k * m)"
    using floor_divide_of_int_eq [of t "k * m", where ?'a = rat] by simp
  have "js_rem ?x (of_int m) = ?x - of_int (m * (t div (k * m)))"
    using x0 q by (simp add: js_rem_def js_trunc_def)
  then have "Math_floor (js_rem ?x (of_int m)) = \<lfloor>?x\<rfloor> - m * (t div (k * m))"
    unfolding Math_floor_def by (simp only: floor_diff_of_int)
  also have "\<lfloor>?x\<rfloor> = t div k" by (simp add: floor_divide_of_int_eq)
  also have "t div (k * m) = (t div k) div m"
    using assms by (simp add: zdiv_zmult2_eq)
  also have "t div k - m * ((t div k) div m) = (t div k) mod m"
    by (simp add: minus_mult_div_eq_mod)
  finally show ?thesis .
qed

lemma getTimeRemaining_expired:
  "target - current \<le> 0 \<Longrightarrow> getTimeRemaining target current =
     \<lparr>expired = True, total = 0, days = 0, hours = 0, minutes = 0, seconds = 0\<rparr>"
  by (simp add: getTimeRemaining_def)

lemma getTimeRemaining_active:
  assumes "0 < target - current"
  shows "getTimeRemaining target current =
     \<lparr>expired = False, total = target - current,
      days = (target - current) div 86400000,
      hours = ((target - current) div 3600000) mod 24,
      minutes = ((target - current) div 60000) mod 60,
      seconds = ((target - current) div 1000) mod 60\<rparr>"
proof -
  let ?t = "target - current"
  have t: "0 \<le> ?t" using assms by simp
  have a: "Math_floor (js_rem (of_int ?t / 1000) 60) = (?t div 1000) mod 60"
    using floor_js_rem [OF t, of 1000 60] by simp
  have b: "Math_floor (js_rem (of_int ?t / 1000 / 60) 60) = (?t div 60000) mod 60"
    using floor_js_rem [OF t, of 60000 60] by simp
  have c: "Math_floor (js_rem (of_int ?t / (1000 * 60 * 60)) 24) = (?t div 3600000) mod 24"
    using floor_js_rem [OF t, of 3600000 24] by simp
  have d: "Math_floor (of_int ?t / (1000 * 60 * 60 * 24)) = ?t div 86400000"
    using floor_divide_of_int_eq [of ?t 86400000, where ?'a = rat] by (simp add: Math_floor_def)
  have n: "\<not> ?t \<le> 0" using assms by simp
  show ?thesis
    unfolding getTimeRemaining_def Let_def a b c d by (simp only: n if_False)
qed

lemma hms_sum:
  fixes t :: int
  shows "(t div 86400000) * 86400 + ((t div 3600000) mod 24) * 3600
          + ((t div 60000) mod 60) * 60 + (t div 1000) mod 60 = t div 1000"
proof -
  define S where "S = t div 1000"
  define M where "M = S div 60"
  define H where "H = M div 60"
  have a: "t div 60000 = M" unfolding S_def M_def by (simp add: zdiv_zmult2_eq [symmetric])
  have b: "t div 3600000 = H" unfolding S_def M_def H_def by (simp add: zdiv_zmult2_eq [symmetric])
  have c: "t div 86400000 = H div 24" unfolding S_def M_def H_def by (simp add: zdiv_zmult2_eq [symmetric])
  have h: "H = (H div 24) * 24 + H mod 24" by simp
  have m: "M = H * 60 + M mod 60" unfolding H_def by simp
  have s: "S = M * 60 + S mod 60" unfolding M_def by simp
  show ?thesis unfolding a b c S_def [symmetric] using h m s by linarith
qed

lemma mod_range_24: "(x::int) mod 24 \<in> {0..23}"
proof -
  have "0 \<le> x mod 24" "x mod 24 < 24" by simp_all
  then show ?thesis by simp
qed

lemma mod_range_60: "(x::int) mod 60 \<in> {0..59}"
proof -
  have "0 \<le> x mod 60" "x mod 60 < 60" by simp_all
  then show ?thesis by simp
qed

text \<open>
  Claim C3. For every target instant and every current instant: when the target is not
  after the current instant the calculator returns the expired value with every number
  zero; otherwise it returns a value that is not expired, whose days are the floor of the
  difference over 86 400 000, whose hours lie in 0..23 and whose minutes and seconds lie in
  0..59, and the four components add up to the whole seconds of the difference.
\<close>

theorem getTimeRemaining_contract:
  "(target - current \<le> 0 \<longrightarrow>
      getTimeRemaining target current =
        \<lparr>expired = True, total = 0, days = 0, hours = 0, minutes = 0, seconds = 0\<rparr>) \<and>
   (0 < target - current \<longrightarrow>
      \<not> expired (getTimeRemaining target current) \<and>
      days (getTimeRemaining target current) = \<lfloor>real_of_int (target - current) / 86400000\<rfloor> \<and>
      hours (getTimeRemaining target current) \<in> {0..23} \<and>
      minutes (getTimeRemaining target current) \<in> {0..59} \<and>
      seconds (getTimeRemaining target current) \<in> {0..59} \<and>
      days (getTimeRemaining target current) * 86400
        + hours (getTimeRemaining target current) * 3600
        + minutes (getTimeRemaining target current) * 60
        + seconds (getTimeRemaining target current)
        = \<lfloor>real_of_int (target - current) / 1000\<rfloor>)"
proof (intro conjI impI)
  assume "target - current \<le> 0"
  then show "getTimeRemaining target current =
        \<lparr>expired = True, total = 0, days = 0, hours = 0, minutes = 0, seconds = 0\<rparr>"
    by (rule getTimeRemaining_expired)
next
  assume pos: "0 < target - current"
  note eq = getTimeRemaining_active [OF pos]
  have f1: "\<lfloor>real_of_int (target - current) / 86400000\<rfloor> = (target - current) div 86400000"
    using floor_divide_of_int_eq [of "target - current" 86400000, where ?'a = real] by simp
  have f2: "\<lfloor>real_of_int (target - current) / 1000\<rfloor> = (target - current) div 1000"
    using floor_divide_of_int_eq [of "target - current" 1000, where ?'a = real] by simp
  show "\<not> expired (getTimeRemaining target current)" by (simp add: eq)
  show "days (getTimeRemaining target current) = \<lfloor>real_of_int (target - current) / 86400000\<rfloor>"
    unfolding f1 by (simp add: eq)
  show "hours (getTimeRemaining target current) \<in> {0..23}"
    unfolding eq by (simp only: time_remaining.simps mod_range_24)
  show "minutes (getTimeRemaining target current) \<in> {0..59}"
    unfolding eq by (simp only: time_remaining.simps mod_range_60)
  show "seconds (getTimeRemaining target current) \<in> {0..59}"
    unfolding eq by (simp only: time_remaining.simps mod_range_60)
  show "days (getTimeRemaining target current) * 86400
        + hours (getTimeRemaining target current) * 3600
        + minutes (getTimeRemaining target current) * 60
        + seconds (getTimeRemaining target current)
        = \<lfloor>real_of_int (target - current) / 1000\<rfloor>"
    unfolding f2 eq by (simp only: time_remaining.simps hms_sum)
qed

theorem getTimeRemaining_contract_witness:
  "getTimeRemaining 1000 1000 =
      \<lparr>expired = True, total = 0, days = 0, hours = 0, minutes = 0, seconds = 0\<rparr> \<and>
   getTimeRemaining 200000000 5000 =
      \<lparr>expired = False, total = 199995000, days = 2, hours = 7, minutes = 33, seconds = 15\<rparr> \<and>
   (2::int) * 86400 + 7 * 3600 + 33 * 60 + 15 = \<lfloor>real_of_int (200000000 - 5000) / 1000\<rfloor>"
proof -
  have e: "getTimeRemaining 1000 1000 =
      \<lparr>expired = True, total = 0, days = 0, hours = 0, minutes = 0, seconds = 0\<rparr>"
    using getTimeRemaining_contract [of 1000 1000] by simp
  have a: "getTimeRemaining 200000000 5000 =
      \<lparr>expired = False, total = 199995000, days = 2, hours = 7, minutes = 33, seconds = 15\<rparr>"
    by code_simp
  have s: "(2::int) * 86400 + 7 * 3600 + 33 * 60 + 15 = \<lfloor>real_of_int (200000000 - 5000) / 1000\<rfloor>"
    using getTimeRemaining_contract [of 200000000 5000] unfolding a by simp
  show ?thesis using e a s by blast
qed

subsection \<open>The duration formatter\<close>

lemma show_nat_not_Nil: "show_nat n \<noteq> []"
  by (subst show_nat.simps) simp

lemma js_string_of_int_not_Nil: "js_string_of_int i \<noteq> []"
  by (simp add: js_string_of_int_def show_nat_not_Nil)

text \<open>
  Claim C4. For every duration whose components are counts (none is negative, as with every
  value of \<open>getTimeRemaining\<close>): the formatter returns the expiry phrase when the
  duration is expired; else \<open>Just a moment\<close> when every component is zero; else the
  non-zero components only, in the order days, hours, minutes, seconds, each followed by
  its unit, in the singular exactly for the value 1, joined by a comma and a space.
\<close>

theorem formatTimeRemaining_phrases:
  assumes "0 \<le> days tr" "0 \<le> hours tr" "0 \<le> minutes tr" "0 \<le> seconds tr"
  shows "formatTimeRemaining tr =
     (if expired tr then ''This countdown has expired!''
      else if days tr = 0 \<and> hours tr = 0 \<and> minutes tr = 0 \<and> seconds tr = 0
      then ''Just a moment''
      else join '', ''
             (map (\<lambda>(v, u). js_string_of_int v @ '' '' @ u @ (if v = 1 then '''' else ''s''))
                (filter (\<lambda>(v, u). v \<noteq> 0)
                   [(days tr, ''day''), (hours tr, ''hour''),
                    (minutes tr, ''minute''), (seconds tr, ''second'')])))"
proof (cases "expired tr")
  case True
  then show ?thesis by (simp add: formatTimeRemaining_def)
next
  case False
  have d: "(0 < days tr) = (days tr \<noteq> 0)" using assms(1) by linarith
  have h: "(0 < hours tr) = (hours tr \<noteq> 0)" using assms(2) by linarith
  have m: "(0 < minutes tr) = (minutes tr \<noteq> 0)" using assms(3) by linarith
  have s: "(0 < seconds tr) = (seconds tr \<noteq> 0)" using assms(4) by linarith
  show ?thesis
    unfolding formatTimeRemaining_def Let_def d h m s
    using False
    by (cases "days tr = 0"; cases "hours tr = 0"; cases "minutes tr = 0"; cases "seconds tr = 0")
       (simp_all add: js_string_of_int_not_Nil)
qed

theorem formatTimeRemaining_phrases_witness:
  "formatTimeRemaining \<lparr>expired = False, total = 86521000, days = 1, hours = 0, minutes = 2, seconds = 1\<rparr>
     = ''1 day, 2 minutes, 1 second''"
proof -
  let ?tr = "\<lparr>expired = False, total = 86521000, days = 1, hours = 0, minutes = 2, seconds = 1\<rparr>"
  have "formatTimeRemaining ?tr = join '', '' [js_string_of_int 1 @ '' day'', js_string_of_int 2 @ '' minutes'', js_string_of_int 1 @ '' second'']"
    using formatTimeRemaining_phrases [of ?tr] by simp
  also have "\<dots> = ''1 day, 2 minutes, 1 second''" by code_simp
  finally show ?thesis .
qed

subsection \<open>The message handler\<close>

text \<open>
  Claim C10. A message whose author is a bot changes nothing: no reply, no reaction, no
  message sent, and the store, the file and the presence text stay as they were, whatever
  the content of the message.
\<close>

theorem bot_author_ignored:
  "author_bot message \<Longrightarrow> messageCreate env message st = st"
  by (simp add: messageCreate_def)

theorem bot_author_ignored_witness:
  \<open>messageCreate
     \<lparr>env_utc = id, env_locale = js_string_of_int, env_now = 0, env_created = 0,
      env_build = (\<lambda>e. None), env_send = Inr ''m1'', env_at_send = (\<lambda>st. st),
      env_react = None, env_at_react = (\<lambda>st. st), env_write = None\<rparr>
     \<lparr>author_bot = True, author_id = ''b'', content = ''!countdown "X" 2099-01-01'',
      channel_id = ''c'', can_manage_messages = True\<rparr>
     \<lparr>countdowns = [], countdowns_file = Missing, activity = None, console = [], outbox = []\<rparr>
   = \<lparr>countdowns = [], countdowns_file = Missing, activity = None, console = [], outbox = []\<rparr>\<close>
  using bot_author_ignored
    [of \<open>\<lparr>author_bot = True, author_id = ''b'', content = ''!countdown "X" 2099-01-01'',
      channel_id = ''c'', can_manage_messages = True\<rparr>\<close>]
  by simp

subsection \<open>The delete command\<close>

lemma messageCreate_delcountdown:
  assumes "\<not> author_bot message" "startsWith (content message) prefix"
    "split_spaces [] (trim (drop (length prefix) (content message))) = first # args"
    "toLowerCase first = ''delcountdown''"
  shows "messageCreate env message st = delete_countdown env message args st"
  using assms by (simp add: messageCreate_def)

lemma messageCreate_countdown:
  assumes "\<not> author_bot message" "startsWith (content message) prefix"
    "split_spaces [] (trim (drop (length prefix) (content message))) = first # args"
    "toLowerCase first = ''countdown''"
  shows "messageCreate env message st = create_countdown env message st"
  using assms by (simp add: messageCreate_def)

lemma saveCountdowns_frame:
  "countdowns (saveCountdowns w st) = countdowns st"
  "activity (saveCountdowns w st) = activity st"
  "outbox (saveCountdowns w st) = outbox st"
  by (simp_all add: saveCountdowns_def split: option.splits)

lemma updateBotStatus_frame:
  "countdowns (updateBotStatus st) = countdowns st"
  "countdowns_file (updateBotStatus st) = countdowns_file st"
  "console (updateBotStatus st) = console st"
  "outbox (updateBotStatus st) = outbox st"
  by (simp_all add: updateBotStatus_def)

lemma reply_frame:
  "countdowns (reply text st) = countdowns st"
  "countdowns_file (reply text st) = countdowns_file st"
  "activity (reply text st) = activity st"
  "console (reply text st) = console st"
  "outbox (reply text st) = outbox st @ [Reply text]"
  by (simp_all add: reply_def)

lemma delete_missing_argument:
  assumes "args = [] \<or> hd args = []"
  shows \<open>delete_countdown env message args st =
     st\<lparr>outbox := outbox st @
        [Reply (''Please specify the index number of the countdown to delete. '' @
                ''Use `!countdowns` to see the list.'')]\<rparr>\<close>
  using assms by (cases args) (simp_all add: delete_countdown_def reply_def)

lemma delete_invalid_index:
  assumes "args = a # rest" "a \<noteq> []"
    "parseInt a = None \<or>
     (\<exists>n. parseInt a = Some n \<and> (n < 1 \<or> int (length (countdowns st)) < n))"
  shows "delete_countdown env message args st =
     st\<lparr>outbox := outbox st @ [Reply ''Invalid countdown index.'']\<rparr>"
proof (cases "parseInt a")
  case None
  then show ?thesis using assms(1,2)
    by (simp add: delete_countdown_def reply_def element_or_def)
next
  case (Some n)
  then have "n < 1 \<or> int (length (countdowns st)) < n" using assms(3) by simp
  then show ?thesis using assms(1,2) Some
    by (auto simp add: delete_countdown_def reply_def element_or_def Let_def)
qed

lemma parseInt_Nil: "parseInt [] = None"
  by code_simp

lemma delete_in_range:
  assumes "args = a # rest" "parseInt a = Some n" "1 \<le> n" "n \<le> int (length (countdowns st))"
  shows "delete_countdown env message args st =
     (if createdBy (countdowns st ! nat (n - 1)) \<noteq> author_id message \<and> \<not> can_manage_messages message
      then st\<lparr>outbox := outbox st @ [Reply ''You can only delete countdowns that you created.'']\<rparr>
      else reply (''Countdown '' @ [dquote] @ name (countdowns st ! nat (n - 1)) @ [dquote] @
                  '' has been deleted.'')
             (updateBotStatus (saveCountdowns (env_write env)
                (st\<lparr>countdowns := take (nat (n - 1)) (countdowns st) @
                                     drop (nat n) (countdowns st)\<rparr>))))"
proof -
  have a: "a \<noteq> []" using assms(2) parseInt_Nil by auto
  have n: "nat (n - 1) + 1 = nat n" using assms(3) by simp
  show ?thesis
    unfolding delete_countdown_def
    using assms a
    by (simp add: element_or_def Let_def n reply_def dquote_def del: One_nat_def)
qed


text \<open>
  Claim C6, as amended. For every delete command: a missing index argument, an argument
  that \<^verbatim>\<open>parseInt\<close> reads no integer from, and one whose leading integer lies outside
  1..length are validation failures (\<^verbatim>\<open>parseInt\<close> passes over white space before the
  integer, that of ASCII or not); a request for a record in range by a user who is
  neither its creator nor a holder of the management permission is an authorization
  failure, answered with a reply of its own; in both failures nothing changes but the
  reply. An argument whose leading integer is in range, from an authorized user, removes
  exactly the record at that position and the new list is written to the file. Text
  after the leading integer is not looked at.
\<close>

theorem delete_command:
  assumes "\<not> author_bot message" "startsWith (content message) prefix"
    "split_spaces [] (trim (drop (length prefix) (content message))) = first # args"
    "toLowerCase first = ''delcountdown''"
  shows \<open>(args = [] \<or> hd args = [] \<longrightarrow>
            messageCreate env message st =
              st\<lparr>outbox := outbox st @
                 [Reply (''Please specify the index number of the countdown to delete. '' @
                         ''Use `!countdowns` to see the list.'')]\<rparr>) \<and>
         (\<forall>a rest. args = a # rest \<and> a \<noteq> [] \<and>
            (parseInt a = None \<or>
             (\<exists>n. parseInt a = Some n \<and> (n < 1 \<or> int (length (countdowns st)) < n))) \<longrightarrow>
            messageCreate env message st =
              st\<lparr>outbox := outbox st @ [Reply ''Invalid countdown index.'']\<rparr>) \<and>
         (\<forall>a rest n. args = a # rest \<and> parseInt a = Some n \<and>
            1 \<le> n \<and> n \<le> int (length (countdowns st)) \<and>
            createdBy (countdowns st ! nat (n - 1)) \<noteq> author_id message \<and>
            \<not> can_manage_messages message \<longrightarrow>
            messageCreate env message st =
              st\<lparr>outbox := outbox st @
                 [Reply ''You can only delete countdowns that you created.'']\<rparr>) \<and>
         (\<forall>a rest n. args = a # rest \<and> parseInt a = Some n \<and>
            1 \<le> n \<and> n \<le> int (length (countdowns st)) \<and>
            (createdBy (countdowns st ! nat (n - 1)) = author_id message \<or>
             can_manage_messages message) \<longrightarrow>
            countdowns (messageCreate env message st) =
              take (nat (n - 1)) (countdowns st) @ drop (nat n) (countdowns st) \<and>
            outbox (messageCreate env message st) =
              outbox st @ [Reply (''Countdown "'' @ name (countdowns st ! nat (n - 1)) @
                                  ''" has been deleted.'')] \<and>
            (env_write env = None \<longrightarrow>
               countdowns_file (messageCreate env message st) =
                 Content (JSON_stringify (take (nat (n - 1)) (countdowns st) @
                                          drop (nat n) (countdowns st)))))\<close>
proof -
  note d = messageCreate_delcountdown [OF assms]
  show ?thesis
  proof (intro conjI allI impI)
    assume "args = [] \<or> hd args = []"
    then show \<open>messageCreate env message st =
              st\<lparr>outbox := outbox st @
                 [Reply (''Please specify the index number of the countdown to delete. '' @
                         ''Use `!countdowns` to see the list.'')]\<rparr>\<close>
      unfolding d by (rule delete_missing_argument)
  next
    fix a rest
    assume "args = a # rest \<and> a \<noteq> [] \<and>
            (parseInt a = None \<or>
             (\<exists>n. parseInt a = Some n \<and> (n < 1 \<or> int (length (countdowns st)) < n)))"
    then show "messageCreate env message st =
              st\<lparr>outbox := outbox st @ [Reply ''Invalid countdown index.'']\<rparr>"
      unfolding d using delete_invalid_index [of args a rest st env message] by blast
  next
    fix a rest n
    assume h: "args = a # rest \<and> parseInt a = Some n \<and>
            1 \<le> n \<and> n \<le> int (length (countdowns st)) \<and>
            createdBy (countdowns st ! nat (n - 1)) \<noteq> author_id message \<and>
            \<not> can_manage_messages message"
    then show "messageCreate env message st =
              st\<lparr>outbox := outbox st @
                 [Reply ''You can only delete countdowns that you created.'']\<rparr>"
      unfolding d using delete_in_range [of args a rest n st env message] by simp
  next
    fix a rest n
    assume h: "args = a # rest \<and> parseInt a = Some n \<and>
            1 \<le> n \<and> n \<le> int (length (countdowns st)) \<and>
            (createdBy (countdowns st ! nat (n - 1)) = author_id message \<or>
             can_manage_messages message)"
    then have e: "delete_countdown env message args st =
        reply (''Countdown '' @ [dquote] @ name (countdowns st ! nat (n - 1)) @ [dquote] @
                  '' has been deleted.'')
             (updateBotStatus (saveCountdowns (env_write env)
                (st\<lparr>countdowns := take (nat (n - 1)) (countdowns st) @
                                     drop (nat n) (countdowns st)\<rparr>)))"
      using delete_in_range [of args a rest n st env message] by auto
    show "countdowns (messageCreate env message st) =
              take (nat (n - 1)) (countdowns st) @ drop (nat n) (countdowns st)"
      unfolding d e by (simp add: reply_frame updateBotStatus_frame saveCountdowns_frame)
    show \<open>outbox (messageCreate env message st) =
              outbox st @ [Reply (''Countdown "'' @ name (countdowns st ! nat (n - 1)) @
                                  ''" has been deleted.'')]\<close>
      unfolding d e
      by (simp add: reply_frame updateBotStatus_frame saveCountdowns_frame dquote_def)
    assume "env_write env = None"
    then show "countdowns_file (messageCreate env message st) =
                 Content (JSON_stringify (take (nat (n - 1)) (countdowns st) @
                                          drop (nat n) (countdowns st)))"
      unfolding d e
      by (simp add: reply_frame updateBotStatus_frame saveCountdowns_def)
  qed
qed

lemma example_message_simps:
  "author_bot (example_message user text) = False"
  "author_id (example_message user text) = user"
  "content (example_message user text) = text"
  "channel_id (example_message user text) = ''c''"
  "can_manage_messages (example_message user text) = False"
  by (simp_all add: example_message_def)

lemma lower_delcountdown: "toLowerCase ''delcountdown'' = ''delcountdown''"
  by (simp add: toLowerCase_def lower_char_def)

lemma lower_countdown: "toLowerCase ''countdown'' = ''countdown''"
  by (simp add: toLowerCase_def lower_char_def)

theorem delete_command_witness:
  \<open>messageCreate example_outside (example_message ''u1'' ''!delcountdown'') example_store =
     example_store\<lparr>outbox := outbox example_store @
        [Reply (''Please specify the index number of the countdown to delete. '' @
                ''Use `!countdowns` to see the list.'')]\<rparr> \<and>
   messageCreate example_outside (example_message ''u1'' ''!delcountdown four'') example_store =
     example_store\<lparr>outbox := outbox example_store @ [Reply ''Invalid countdown index.'']\<rparr> \<and>
   messageCreate example_outside (example_message ''u1'' ''!delcountdown 2'') example_store =
     example_store\<lparr>outbox := outbox example_store @
        [Reply ''You can only delete countdowns that you created.'']\<rparr> \<and>
   countdowns (messageCreate example_outside (example_message ''u2'' ''!delcountdown 2'')
                 example_store) =
     [\<lparr>name = ''A'', targetDate = 1800000000000, channelId = ''c'', messageId = ''m1'',
       createdBy = ''u1'', createdAt = 10\<rparr>,
      \<lparr>name = ''C'', targetDate = 1800000000000, channelId = ''c'', messageId = ''m3'',
       createdBy = ''u1'', createdAt = 30\<rparr>] \<and>
   messageCreate example_outside
     (example_message ''u1'' (''!delcountdown '' @ [CHR 0xC2, CHR 0xA0])) example_store =
     example_store\<lparr>outbox := outbox example_store @
        [Reply (''Please specify the index number of the countdown to delete. '' @
                ''Use `!countdowns` to see the list.'')]\<rparr> \<and>
   countdowns (messageCreate example_outside
                 (example_message ''u2'' (''!delcountdown '' @ [CHR 0xC2, CHR 0xA0] @ ''2''))
                 example_store) =
     [\<lparr>name = ''A'', targetDate = 1800000000000, channelId = ''c'', messageId = ''m1'',
       createdBy = ''u1'', createdAt = 10\<rparr>,
      \<lparr>name = ''C'', targetDate = 1800000000000, channelId = ''c'', messageId = ''m3'',
       createdBy = ''u1'', createdAt = 30\<rparr>]\<close>
proof -
  have sw: "\<And>user rest. startsWith (content (example_message user (CHR ''!'' # rest))) prefix"
    by (simp add: startsWith_def prefix_def example_message_simps)
  have nb: "\<And>user text. \<not> author_bot (example_message user text)"
    by (simp add: example_message_simps)
  have w0: "split_spaces [] (trim (drop (length prefix)
              (content (example_message ''u1'' ''!delcountdown'')))) = [''delcountdown'']"
    by (simp add: example_message_simps prefix_def) code_simp
  have w1: "split_spaces [] (trim (drop (length prefix)
              (content (example_message ''u1'' ''!delcountdown four'')))) =
              [''delcountdown'', ''four'']"
    by (simp add: example_message_simps prefix_def) code_simp
  have w2: "\<And>user. split_spaces [] (trim (drop (length prefix)
              (content (example_message user ''!delcountdown 2'')))) = [''delcountdown'', ''2'']"
    by (simp add: example_message_simps prefix_def) code_simp
  have p1: "parseInt ''four'' = None"
    by code_simp
  have p2: "parseInt ''2'' = Some 2"
    by code_simp
  have a: \<open>messageCreate example_outside (example_message ''u1'' ''!delcountdown'') example_store =
     example_store\<lparr>outbox := outbox example_store @
        [Reply (''Please specify the index number of the countdown to delete. '' @
                ''Use `!countdowns` to see the list.'')]\<rparr>\<close>
    using delete_command [OF nb sw w0 lower_delcountdown, where env = example_outside and st = example_store]
    by simp
  have b: "messageCreate example_outside (example_message ''u1'' ''!delcountdown four'') example_store =
     example_store\<lparr>outbox := outbox example_store @ [Reply ''Invalid countdown index.'']\<rparr>"
    using delete_command [OF nb sw w1 lower_delcountdown, where env = example_outside and st = example_store] p1
    by simp
  have c: "messageCreate example_outside (example_message ''u1'' ''!delcountdown 2'') example_store =
     example_store\<lparr>outbox := outbox example_store @
        [Reply ''You can only delete countdowns that you created.'']\<rparr>"
    using delete_command [OF nb sw w2 lower_delcountdown, where env = example_outside and st = example_store,
        THEN conjunct2, THEN conjunct2, THEN conjunct1, rule_format, of "''2''" "[]" 2] p2
    by (simp add: example_message_simps example_store_def)
  have d: "countdowns (messageCreate example_outside (example_message ''u2'' ''!delcountdown 2'')
                 example_store) =
     [\<lparr>name = ''A'', targetDate = 1800000000000, channelId = ''c'', messageId = ''m1'',
       createdBy = ''u1'', createdAt = 10\<rparr>,
      \<lparr>name = ''C'', targetDate = 1800000000000, channelId = ''c'', messageId = ''m3'',
       createdBy = ''u1'', createdAt = 30\<rparr>]"
    using delete_command [OF nb sw w2 lower_delcountdown, where env = example_outside and st = example_store,
        THEN conjunct2, THEN conjunct2, THEN conjunct2, rule_format, of "''2''" "[]" 2] p2
    by (simp add: example_message_simps example_store_def)
  have w3: "split_spaces [] (trim (drop (length prefix)
              (content (example_message ''u1'' (''!delcountdown '' @ [CHR 0xC2, CHR 0xA0]))))) =
              [''delcountdown'']"
    by (simp add: example_message_simps prefix_def) code_simp
  have w4: "split_spaces [] (trim (drop (length prefix)
              (content (example_message ''u2''
                 (''!delcountdown '' @ [CHR 0xC2, CHR 0xA0] @ ''2''))))) =
              [''delcountdown'', [CHR 0xC2, CHR 0xA0, CHR ''2'']]"
    by (simp add: example_message_simps prefix_def) code_simp
  have p4: "parseInt [CHR 0xC2, CHR 0xA0, CHR ''2''] = Some 2"
    by code_simp
  have e: \<open>messageCreate example_outside
     (example_message ''u1'' (''!delcountdown '' @ [CHR 0xC2, CHR 0xA0])) example_store =
     example_store\<lparr>outbox := outbox example_store @
        [Reply (''Please specify the index number of the countdown to delete. '' @
                ''Use `!countdowns` to see the list.'')]\<rparr>\<close>
    using delete_command [OF nb _ w3 lower_delcountdown, where env = example_outside and st = example_store]
    by (simp add: startsWith_def prefix_def example_message_simps)
  have f: "countdowns (messageCreate example_outside
                 (example_message ''u2'' (''!delcountdown '' @ [CHR 0xC2, CHR 0xA0] @ ''2''))
                 example_store) =
     [\<lparr>name = ''A'', targetDate = 1800000000000, channelId = ''c'', messageId = ''m1'',
       createdBy = ''u1'', createdAt = 10\<rparr>,
      \<lparr>name = ''C'', targetDate = 1800000000000, channelId = ''c'', messageId = ''m3'',
       createdBy = ''u1'', createdAt = 30\<rparr>]"
    using delete_command [OF nb _ w4 lower_delcountdown, where env = example_outside and st = example_store,
        THEN conjunct2, THEN conjunct2, THEN conjunct2, rule_format,
        of "[CHR 0xC2, CHR 0xA0, CHR ''2'']" "[]" 2] p4
    by (simp add: startsWith_def prefix_def example_message_simps example_store_def)
  show ?thesis using a b c d e f by blast
qed

text \<open>
  The claim as stated fails for a non-numeric argument with a leading digit:
  \<^verbatim>\<open>!delcountdown 2abc\<close> removes the second record.
\<close>

theorem delete_non_numeric_counterexample:
  "\<not> list_all is_digit ''2abc'' \<and>
   countdowns (messageCreate example_outside (example_message ''u2'' ''!delcountdown 2abc'')
                 example_store) =
     [\<lparr>name = ''A'', targetDate = 1800000000000, channelId = ''c'', messageId = ''m1'',
       createdBy = ''u1'', createdAt = 10\<rparr>,
      \<lparr>name = ''C'', targetDate = 1800000000000, channelId = ''c'', messageId = ''m3'',
       createdBy = ''u1'', createdAt = 30\<rparr>]"
proof -
  have sw: "\<And>user rest. startsWith (content (example_message user (CHR ''!'' # rest))) prefix"
    by (simp add: startsWith_def prefix_def example_message_simps)
  have nb: "\<And>user text. \<not> author_bot (example_message user text)"
    by (simp add: example_message_simps)
  have w: "split_spaces [] (trim (drop (length prefix)
              (content (example_message ''u2'' ''!delcountdown 2abc'')))) =
              [''delcountdown'', ''2abc'']"
    by (simp add: example_message_simps prefix_def) code_simp
  have p: "parseInt ''2abc'' = Some 2"
    by code_simp
  have d: "messageCreate example_outside (example_message ''u2'' ''!delcountdown 2abc'') example_store
        = delete_countdown example_outside (example_message ''u2'' ''!delcountdown 2abc'')
            [''2abc''] example_store"
    using messageCreate_delcountdown [OF nb sw w lower_delcountdown] .
  have "countdowns (delete_countdown example_outside (example_message ''u2'' ''!delcountdown 2abc'')
            [''2abc''] example_store) =
     [\<lparr>name = ''A'', targetDate = 1800000000000, channelId = ''c'', messageId = ''m1'',
       createdBy = ''u1'', createdAt = 10\<rparr>,
      \<lparr>name = ''C'', targetDate = 1800000000000, channelId = ''c'', messageId = ''m3'',
       createdBy = ''u1'', createdAt = 30\<rparr>]"
    using delete_in_range [of "[''2abc'']" "''2abc''" "[]" 2 example_store example_outside
        "example_message ''u2'' ''!delcountdown 2abc''"] p
    by (simp add: example_message_simps example_store_def reply_frame updateBotStatus_frame
          saveCountdowns_frame)
  then show ?thesis unfolding d by (simp add: is_digit_def)
qed

subsection \<open>The create command\<close>

lemma date_2024_13_40: "new_Date (\<lambda>t. t) 2024 12 40 0 0 0 = Some 1739059200000"
  by (simp add: new_Date_def TimeClip_def MakeDate_def MakeDay_def MakeTime_def DayFromYear_def
        DaysBeforeMonth_def InLeapYear_def)

lemma date_2099_01_01_25h: "new_Date (\<lambda>t. t) 2099 0 1 25 0 0 = Some 4070998800000"
  by (simp add: new_Date_def TimeClip_def MakeDate_def MakeDay_def MakeTime_def DayFromYear_def
        DaysBeforeMonth_def InLeapYear_def)

lemma create_stored:
  assumes "js_match (content message) countdown_regex = Some m"
    "m (Suc 0) = Some eventName" "m 2 = Some datePart" "m 3 = timePart"
    "map js_Number (split_char CHR ''-'' [] datePart) = [year, month, day]"
    "map js_Number (split_char CHR '':'' []
       (case timePart of None \<Rightarrow> ''00:00:00'' | Some t \<Rightarrow> if t = [] then ''00:00:00'' else t)) = hms"
    "new_Date (env_utc env) year (month - 1) day (element_or 0 hms 0) (element_or 0 hms 1)
       (element_or 0 hms 2) = Some target"
    "env_build env = (\<lambda>e. None)" "env_send env = Inr sent_id" "env_react env = None"
    "env_at_send env = (\<lambda>st. st)" "env_at_react env = (\<lambda>st. st)"
  shows "create_countdown env message st =
     (updateBotStatus (saveCountdowns (env_write env)
        (st\<lparr>countdowns := countdowns st @
              [\<lparr>name = eventName, targetDate = target, channelId = channel_id message,
                messageId = sent_id, createdBy = author_id message,
                createdAt = env_created env\<rparr>],
            outbox := outbox st @
              [Send (channel_id message)
                 (running_embed (env_locale env) (env_now env)
                    \<lparr>name = eventName, targetDate = target, channelId = channel_id message,
                     messageId = sent_id, createdBy = author_id message,
                     createdAt = env_created env\<rparr>)]\<rparr>)))
     \<lparr>outbox := outbox st @
        [Send (channel_id message)
           (running_embed (env_locale env) (env_now env)
              \<lparr>name = eventName, targetDate = target, channelId = channel_id message,
               messageId = sent_id, createdBy = author_id message,
               createdAt = env_created env\<rparr>),
         React check_mark]\<rparr>"
  using assms
  by (simp add: create_countdown_def Let_def running_embed_def saveCountdowns_def
        updateBotStatus_def split: option.splits)

text \<open>
  Claim C2 at a date that names no calendar day: \<^verbatim>\<open>!countdown "Bad" 2024-13-40\<close> matches
  the pattern (two digits each for month and day), the date constructor carries month 13
  and day 40 over to 9 February 2025, so that the test \<^verbatim>\<open>isNaN(targetDate.getTime())\<close>
  lets it pass: the tracking message is sent, the record is stored and written to the
  file, and the user gets the reaction, not a reply.
\<close>

theorem create_month_13_accepted:
  \<open>messageCreate example_outside (example_message ''u1'' ''!countdown "Bad" 2024-13-40'')
     example_store =
     example_store
       \<lparr>countdowns := countdowns example_store @
          [\<lparr>name = ''Bad'', targetDate = 1739059200000, channelId = ''c'', messageId = ''m9'',
            createdBy = ''u1'', createdAt = 1700000000500\<rparr>],
        countdowns_file := Content (JSON_stringify (countdowns example_store @
          [\<lparr>name = ''Bad'', targetDate = 1739059200000, channelId = ''c'', messageId = ''m9'',
            createdBy = ''u1'', createdAt = 1700000000500\<rparr>])),
        activity := Some ''4 countdowns'',
        console := [ConsoleLog ''Saved 4 countdown(s) to file.''],
        outbox :=
          [Send ''c''
             (running_embed js_string_of_int 1700000000000
                \<lparr>name = ''Bad'', targetDate = 1739059200000, channelId = ''c'',
                 messageId = ''m9'', createdBy = ''u1'', createdAt = 1700000000500\<rparr>),
           React check_mark]\<rparr>\<close>
proof -
  let ?message = \<open>example_message ''u1'' ''!countdown "Bad" 2024-13-40''\<close>
  have nb: "\<not> author_bot ?message" by (simp add: example_message_simps)
  have sw: "startsWith (content ?message) prefix"
    by (simp add: startsWith_def prefix_def example_message_simps)
  have w: \<open>split_spaces [] (trim (drop (length prefix) (content ?message))) =
             [''countdown'', ''"Bad"'', ''2024-13-40'']\<close>
    by (simp add: example_message_simps prefix_def) code_simp
  have c: "messageCreate example_outside ?message example_store =
             create_countdown example_outside ?message example_store"
    using messageCreate_countdown [OF nb sw w lower_countdown] .
  have \<open>map_option (\<lambda>m. (m 1, m 2, m 3))
          (js_match ''!countdown "Bad" 2024-13-40'' countdown_regex) =
        Some (Some ''Bad'', Some ''2024-13-40'', None)\<close>
    by code_simp
  then obtain m where m: \<open>js_match (content ?message) countdown_regex = Some m\<close>
      \<open>m (Suc 0) = Some ''Bad''\<close> \<open>m 2 = Some ''2024-13-40''\<close> \<open>m 3 = None\<close>
    by (auto simp add: example_message_simps)
  have ymd: "map js_Number (split_char CHR ''-'' [] ''2024-13-40'') = [2024, 13, 40]"
    by (simp add: js_Number_def digit_value_def)
  have hms: "map js_Number (split_char CHR '':'' []
       (case None :: string option of None \<Rightarrow> ''00:00:00''
        | Some t \<Rightarrow> if t = [] then ''00:00:00'' else t)) = [0, 0, 0]"
    by (simp add: js_Number_def digit_value_def)
  have d: "new_Date (env_utc example_outside) 2024 (13 - 1) 40 (element_or 0 [0, 0, 0] 0)
             (element_or 0 [0, 0, 0] 1) (element_or 0 [0, 0, 0] 2) = Some 1739059200000"
    by (simp add: element_or_def example_outside_def date_2024_13_40)
  have n: "show_nat (Suc (Suc (Suc (Suc 0)))) = ''4''" by code_simp
  have b: "env_build example_outside = (\<lambda>e. None)" by (simp add: example_outside_def)
  have sd: "env_send example_outside = Inr ''m9''" by (simp add: example_outside_def)
  have r: "env_react example_outside = None" by (simp add: example_outside_def)
  have q: "env_at_send example_outside = (\<lambda>st. st)" "env_at_react example_outside = (\<lambda>st. st)"
    by (simp_all add: example_outside_def)
  show ?thesis
    unfolding c create_stored [OF m ymd hms d b sd r q, of example_store]
    by (simp add: example_outside_def example_message_simps example_store_def
          saveCountdowns_def updateBotStatus_def n)
qed

text \<open>
  Claim C7 at an hour outside 0..23: \<^verbatim>\<open>!countdown "X" 2099-01-01 25:00\<close> passes the
  pattern (\<^verbatim>\<open>[0-2]?\d\<close> admits 24 to 29) and a record for 2 January 2099, 01:00, is
  stored.
\<close>

theorem create_hour_25_accepted:
  \<open>countdowns (messageCreate example_outside
                 (example_message ''u1'' ''!countdown "X" 2099-01-01 25:00'') example_store) =
     countdowns example_store @
     [\<lparr>name = ''X'', targetDate = 4070998800000, channelId = ''c'', messageId = ''m9'',
       createdBy = ''u1'', createdAt = 1700000000500\<rparr>]\<close>
proof -
  let ?message = \<open>example_message ''u1'' ''!countdown "X" 2099-01-01 25:00''\<close>
  have nb: "\<not> author_bot ?message" by (simp add: example_message_simps)
  have sw: "startsWith (content ?message) prefix"
    by (simp add: startsWith_def prefix_def example_message_simps)
  have w: \<open>split_spaces [] (trim (drop (length prefix) (content ?message))) =
             [''countdown'', ''"X"'', ''2099-01-01'', ''25:00'']\<close>
    by (simp add: example_message_simps prefix_def) code_simp
  have c: "messageCreate example_outside ?message example_store =
             create_countdown example_outside ?message example_store"
    using messageCreate_countdown [OF nb sw w lower_countdown] .
  have \<open>map_option (\<lambda>m. (m 1, m 2, m 3))
          (js_match ''!countdown "X" 2099-01-01 25:00'' countdown_regex) =
        Some (Some ''X'', Some ''2099-01-01'', Some ''25:00'')\<close>
    by code_simp
  then obtain m where m: \<open>js_match (content ?message) countdown_regex = Some m\<close>
      \<open>m (Suc 0) = Some ''X''\<close> \<open>m 2 = Some ''2099-01-01''\<close> \<open>m 3 = Some ''25:00''\<close>
    by (auto simp add: example_message_simps)
  have ymd: "map js_Number (split_char CHR ''-'' [] ''2099-01-01'') = [2099, 1, 1]"
    by (simp add: js_Number_def digit_value_def)
  have hms: "map js_Number (split_char CHR '':'' []
       (case Some ''25:00'' of None \<Rightarrow> ''00:00:00''
        | Some t \<Rightarrow> if t = [] then ''00:00:00'' else t)) = [25, 0]"
    by (simp add: js_Number_def digit_value_def)
  have d: "new_Date (env_utc example_outside) 2099 (1 - 1) 1 (element_or 0 [25, 0] 0)
             (element_or 0 [25, 0] 1) (element_or 0 [25, 0] 2) = Some 4070998800000"
    by (simp add: element_or_def example_outside_def date_2099_01_01_25h)
  have b: "env_build example_outside = (\<lambda>e. None)" by (simp add: example_outside_def)
  have sd: "env_send example_outside = Inr ''m9''" by (simp add: example_outside_def)
  have r: "env_react example_outside = None" by (simp add: example_outside_def)
  have q: "env_at_send example_outside = (\<lambda>st. st)" "env_at_react example_outside = (\<lambda>st. st)"
    by (simp_all add: example_outside_def)
  show ?thesis
    unfolding c create_stored [OF m ymd hms d b sd r q, of example_store]
    by (simp add: example_outside_def example_message_simps example_store_def
          saveCountdowns_def updateBotStatus_def)
qed

subsection \<open>The refresh cycle\<close>



















subsection \<open>Saving and loading\<close>

lemma hex_value_hex_char_all: "\<forall>d \<in> set [0..<16]. hex_value (hex_char d) = Some d"
  by code_simp

lemma hex_value_hex_char: "d < 16 \<Longrightarrow> hex_value (hex_char d) = Some d"
  using hex_value_hex_char_all by simp

lemma hex4_control:
  assumes "n < 32"
  shows "hex4 (CHR ''0'') (CHR ''0'') (hex_char (n div 16)) (hex_char (n mod 16)) = Some n"
proof -
  have a: "hex_value (hex_char (n div 16)) = Some (n div 16)"
    using assms by (intro hex_value_hex_char) simp
  have b: "hex_value (hex_char (n mod 16)) = Some (n mod 16)"
    by (intro hex_value_hex_char) simp
  have z: "hex_value (CHR ''0'') = Some 0" by (simp add: hex_value_def)
  show ?thesis by (simp add: hex4_def a b z)
qed

lemma utf8_encode_ascii: "of_char c < (128::nat) \<Longrightarrow> utf8_encode (of_char c) = [c]"
  by (simp add: utf8_encode_def)

lemma parse_chars_quote_char:
  "parse_chars (quote_char c @ rest) = map_option (\<lambda>(s, t). (c # s, t)) (parse_chars rest)"
proof -
  consider (b) "c = CHR 0x08" | (t) "c = CHR 0x09" | (n) "c = CHR 0x0A" | (f) "c = CHR 0x0C"
    | (r) "c = CHR 0x0D" | (q) "c = dquote" | (s) "c = backslash"
    | (ctl) "c \<notin> {CHR 0x08, CHR 0x09, CHR 0x0A, CHR 0x0C, CHR 0x0D, dquote, backslash}"
            "(of_char c :: nat) < 32"
    | (plain) "c \<notin> {CHR 0x08, CHR 0x09, CHR 0x0A, CHR 0x0C, CHR 0x0D, dquote, backslash}"
            "\<not> (of_char c :: nat) < 32"
    by blast
  then show ?thesis
  proof cases
    case b then show ?thesis
      by (simp add: quote_char_def backslash_def dquote_def escape_char_def)
  next
    case t then show ?thesis
      by (simp add: quote_char_def backslash_def dquote_def escape_char_def)
  next
    case n then show ?thesis
      by (simp add: quote_char_def backslash_def dquote_def escape_char_def)
  next
    case f then show ?thesis
      by (simp add: quote_char_def backslash_def dquote_def escape_char_def)
  next
    case r then show ?thesis
      by (simp add: quote_char_def backslash_def dquote_def escape_char_def)
  next
    case q then show ?thesis
      by (simp add: quote_char_def backslash_def dquote_def escape_char_def)
  next
    case s then show ?thesis
      by (simp add: quote_char_def backslash_def dquote_def escape_char_def)
  next
    case ctl
    have e: "utf8_encode (of_char c) = [c]" using ctl(2) by (intro utf8_encode_ascii) simp
    have q: "quote_char c = [backslash, CHR ''u'', CHR ''0'', CHR ''0'',
               hex_char (of_char c div 16), hex_char (of_char c mod 16)]"
      using ctl by (simp add: quote_char_def)
    show ?thesis
      unfolding q using hex4_control [OF ctl(2)] e
      by (simp add: backslash_def dquote_def)
  next
    case plain
    then have q: "quote_char c = [c]" by (simp add: quote_char_def)
    show ?thesis unfolding q using plain by simp
  qed
qed

lemma parse_chars_quoted:
  "parse_chars (concat (map quote_char s) @ dquote # rest) = Some (s, rest)"
proof (induction s)
  case Nil
  show ?case by simp
next
  case (Cons c s)
  have "parse_chars (concat (map quote_char (c # s)) @ dquote # rest) =
          parse_chars (quote_char c @ (concat (map quote_char s) @ dquote # rest))"
    by simp
  also have "\<dots> = Some (c # s, rest)"
    unfolding parse_chars_quote_char by (simp add: Cons.IH)
  finally show ?case .
qed

lemma digit_char_is_digit: "d < 10 \<Longrightarrow> is_digit (digit_char d)"
proof -
  have "\<forall>d \<in> set [0..<10]. is_digit (digit_char d)" by code_simp
  then show "d < 10 \<Longrightarrow> is_digit (digit_char d)" by simp
qed

lemma digit_value_digit_char: "d < 10 \<Longrightarrow> digit_value (digit_char d) = int d"
proof -
  have "\<forall>d \<in> set [0..<10]. digit_value (digit_char d) = int d" by code_simp
  then show "d < 10 \<Longrightarrow> digit_value (digit_char d) = int d" by simp
qed

lemma digit_char_zero: "d < 10 \<Longrightarrow> (digit_char d = CHR ''0'') = (d = 0)"
proof -
  have "\<forall>d \<in> set [0..<10]. (digit_char d = CHR ''0'') = (d = 0)" by code_simp
  then show "d < 10 \<Longrightarrow> (digit_char d = CHR ''0'') = (d = 0)" by simp
qed

lemma show_nat_digits: "list_all is_digit (show_nat n)"
proof (induction n rule: show_nat.induct)
  case (1 n)
  show ?case
  proof (cases "n < 10")
    case True
    then show ?thesis by (subst show_nat.simps) (simp add: digit_char_is_digit)
  next
    case False
    then show ?thesis
      using "1.IH" by (subst show_nat.simps) (simp add: digit_char_is_digit)
  qed
qed

lemma js_Number_snoc: "js_Number (ds @ [c]) = 10 * js_Number ds + digit_value c"
  by (simp add: js_Number_def)

lemma js_Number_show_nat: "js_Number (show_nat n) = int n"
proof (induction n rule: show_nat.induct)
  case (1 n)
  show ?case
  proof (cases "n < 10")
    case True
    then show ?thesis
      by (subst show_nat.simps) (simp add: js_Number_def digit_value_digit_char)
  next
    case False
    have "js_Number (show_nat n) = 10 * int (n div 10) + int (n mod 10)"
      using False "1.IH"
      by (subst show_nat.simps) (simp add: js_Number_snoc digit_value_digit_char)
    also have "\<dots> = int n"
    proof -
      have "int (10 * (n div 10) + n mod 10) = int n" by simp
      then show ?thesis by (simp only: of_nat_add of_nat_mult of_nat_numeral)
    qed
    finally show ?thesis .
  qed
qed

lemma show_nat_hd_zero: "(hd (show_nat n) = CHR ''0'') = (n = 0)"
proof (induction n rule: show_nat.induct)
  case (1 n)
  show ?case
  proof (cases "n < 10")
    case True
    then show ?thesis by (subst show_nat.simps) (simp add: digit_char_zero)
  next
    case False
    then have "n div 10 \<noteq> 0" by simp
    then show ?thesis
      using False "1.IH"
      by (subst show_nat.simps) (simp add: show_nat_not_Nil)
  qed
qed

lemma show_nat_zero: "show_nat 0 = ''0''"
  by (subst show_nat.simps) (simp add: digit_char_def)

lemma take1_show_nat: "(take 1 (show_nat n @ rest) = ''0'') = (n = 0)"
proof -
  obtain c cs where s: "show_nat n = c # cs"
    using show_nat_not_Nil [of n] by (cases "show_nat n") auto
  have "(c = CHR ''0'') = (n = 0)" using show_nat_hd_zero [of n] by (simp add: s)
  then show ?thesis by (simp add: s)
qed

lemma takeWhile_digits_show_nat:
  assumes "rest = [] \<or> \<not> is_digit (hd rest)"
  shows "takeWhile is_digit (show_nat n @ rest) = show_nat n"
proof -
  have a: "\<forall>x \<in> set (show_nat n). is_digit x"
    using show_nat_digits [of n] by (simp add: list_all_iff)
  have "takeWhile is_digit rest = []" using assms by (cases rest) auto
  then show ?thesis using a by simp
qed

lemma ends_number_parts:
  assumes "ends_number rest"
  shows "parse_frac_part rest = Some ([], rest)" "parse_exp_part rest = Some (0, rest)"
  using assms
  by (cases rest; auto simp add: ends_number_def parse_frac_part_def parse_exp_part_def)+

lemma parse_int_part_show_nat:
  assumes "ends_number rest"
  shows "parse_int_part (show_nat n @ rest) = Some (show_nat n, rest)"
proof -
  have tw: "takeWhile is_digit (show_nat n @ rest) = show_nat n"
    using assms by (intro takeWhile_digits_show_nat) (auto simp add: ends_number_def)
  have ip: "(if take 1 (show_nat n @ rest) = ''0'' then ''0'' else takeWhile is_digit (show_nat n @ rest))
              = show_nat n"
    using take1_show_nat [of n rest] tw show_nat_zero by auto
  show ?thesis
    unfolding parse_int_part_def ip Let_def by (simp add: show_nat_not_Nil)
qed

lemma show_nat_not_minus: "take 1 (show_nat n @ rest) \<noteq> ''-''"
proof -
  obtain c cs where s: "show_nat n = c # cs"
    using show_nat_not_Nil [of n] by (cases "show_nat n") auto
  have d: "is_digit c" using show_nat_digits [of n] by (simp add: s)
  then have "c \<noteq> CHR ''-''" by (auto simp add: is_digit_def)
  then show ?thesis by (simp add: s)
qed

lemma js_Number_Nil: "js_Number [] = 0"
  by (simp add: js_Number_def)

lemma parse_number_js_string_of_int:
  assumes "ends_number rest"
  shows "parse_number (js_string_of_int i @ rest) = Some (of_int i, rest)"
proof (cases "i < 0")
  case False
  have e: "js_string_of_int i @ rest = show_nat (nat i) @ rest"
    using False by (simp add: js_string_of_int_def)
  have m: "(take 1 (show_nat (nat i) @ rest) = ''-'') = False"
    using show_nat_not_minus by simp
  have "parse_number (show_nat (nat i) @ rest) =
          Some (1 * (of_int (js_Number (show_nat (nat i))) + of_int (js_Number []) / 10 ^ length ([]::string)) *
                (if (0::int) < 0 then 1 / 10 ^ nat (- 0) else 10 ^ nat 0), rest)"
    unfolding parse_number_def
    by (simp only: m if_False parse_int_part_show_nat [OF assms] ends_number_parts [OF assms]
          option.case prod.case)
  also have "\<dots> = Some (of_int i, rest)"
    using False by (simp add: js_Number_show_nat js_Number_Nil)
  finally show ?thesis unfolding e .
next
  case True
  have e: "js_string_of_int i @ rest = CHR ''-'' # (show_nat (nat (- i)) @ rest)"
    using True by (simp add: js_string_of_int_def)
  have m: "(take 1 (CHR ''-'' # (show_nat (nat (- i)) @ rest)) = ''-'') = True"
    by simp
  have d: "drop 1 (CHR ''-'' # (show_nat (nat (- i)) @ rest)) = show_nat (nat (- i)) @ rest"
    by simp
  have "parse_number (CHR ''-'' # (show_nat (nat (- i)) @ rest)) =
          Some (- 1 * (of_int (js_Number (show_nat (nat (- i)))) + of_int (js_Number []) / 10 ^ length ([]::string)) *
                (if (0::int) < 0 then 1 / 10 ^ nat (- 0) else 10 ^ nat 0), rest)"
    unfolding parse_number_def
    by (simp only: m d if_True parse_int_part_show_nat [OF assms] ends_number_parts [OF assms]
          option.case prod.case)
  also have "\<dots> = Some (of_int i, rest)"
    using True by (simp add: js_Number_show_nat js_Number_Nil)
  finally show ?thesis unfolding e .
qed

lemma skip_ws_nonspace: "\<not> is_json_space c \<Longrightarrow> skip_ws (c # r) = c # r"
  by (simp add: skip_ws_def)

lemma skip_ws_space: "is_json_space c \<Longrightarrow> skip_ws (c # r) = skip_ws r"
  by (simp add: skip_ws_def)

lemma skip_ws_spaces: "list_all is_json_space ws \<Longrightarrow> skip_ws (ws @ s) = skip_ws s"
  by (induction ws) (simp_all add: skip_ws_space)

lemma skip_ws_Nil: "skip_ws [] = []"
  by (simp add: skip_ws_def)

lemma json_space_simps:
  "is_json_space newline" "is_json_space (CHR '' '')" "\<not> is_json_space dquote"
  "\<not> is_json_space (CHR ''{'')" "\<not> is_json_space (CHR ''}'')" "\<not> is_json_space (CHR ''['')"
  "\<not> is_json_space (CHR '']'')" "\<not> is_json_space (CHR '','')" "\<not> is_json_space (CHR '':'')"
  by (simp_all add: is_json_space_def newline_def dquote_def)

lemma parse_value_spaces: "list_all is_json_space ws \<Longrightarrow> parse_value (ws @ s) = parse_value s"
  by (simp add: parse_value.simps [of "ws @ s"] parse_value.simps [of s] skip_ws_spaces)

lemma parse_value_string: "parse_value (quote_string s @ rest) = Some (JStr s, rest)"
proof -
  have e: "quote_string s @ rest = dquote # (concat (map quote_char s) @ dquote # rest)"
    by (simp add: quote_string_def)
  have d: "dquote \<noteq> CHR ''{''" "dquote \<noteq> CHR ''[''" by (simp_all add: dquote_def)
  show ?thesis
    unfolding e
    by (subst parse_value.simps)
       (simp add: skip_ws_nonspace json_space_simps d parse_chars_quoted)
qed

lemma js_string_of_int_head:
  "\<exists>c cs. js_string_of_int i = c # cs \<and> (is_digit c \<or> c = CHR ''-'')"
proof (cases "i < 0")
  case True
  then show ?thesis by (simp add: js_string_of_int_def)
next
  case False
  obtain c cs where s: "show_nat (nat i) = c # cs"
    using show_nat_not_Nil [of "nat i"] by (cases "show_nat (nat i)") auto
  have "is_digit c" using show_nat_digits [of "nat i"] by (simp add: s)
  then show ?thesis using False s by (simp add: js_string_of_int_def)
qed

lemma parse_value_int:
  assumes "ends_number rest"
  shows "parse_value (js_string_of_int i @ rest) = Some (JNum (of_int i), rest)"
proof -
  obtain c cs where s: "js_string_of_int i = c # cs" and c: "is_digit c \<or> c = CHR ''-''"
    using js_string_of_int_head by blast
  have n: "\<not> is_json_space c" "c \<noteq> CHR ''{''" "c \<noteq> CHR ''[''" "c \<noteq> dquote"
          "c \<noteq> CHR ''t''" "c \<noteq> CHR ''f''" "c \<noteq> CHR ''n''"
    using c by (auto simp add: is_digit_def is_json_space_def dquote_def)
  have p: "parse_number (c # cs @ rest) = Some (of_int i, rest)"
    using parse_number_js_string_of_int [OF assms, of i] by (simp add: s)
  show ?thesis
    unfolding s
    by (subst parse_value.simps) (simp add: skip_ws_nonspace n p)
qed

lemma ends_number_simps: "ends_number (CHR '','' # r)" "ends_number (newline # r)"
  by (simp_all add: ends_number_def is_digit_def newline_def)

lemma parse_members_more:
  assumes v: "parse_value (vt @ CHR '','' # rest) = Some (v, CHR '','' # rest)"
  shows "parse_members (newline # CHR '' '' # CHR '' '' # CHR '' '' # CHR '' '' #
                        quote_string k @ CHR '':'' # CHR '' '' # vt @ CHR '','' # rest) =
           map_option (\<lambda>(ms, t). ((k, v) # ms, t)) (parse_members rest)"
proof -
  have e: "quote_string k @ CHR '':'' # CHR '' '' # vt @ CHR '','' # rest =
           dquote # (concat (map quote_char k) @ dquote # CHR '':'' # CHR '' '' # vt @ CHR '','' # rest)"
    by (simp add: quote_string_def)
  have sp: "parse_value (CHR '' '' # vt @ CHR '','' # rest) = Some (v, CHR '','' # rest)"
    using parse_value_spaces [of "'' ''" "vt @ CHR '','' # rest"] v
    by (simp add: json_space_simps)
  show ?thesis
    unfolding e
    by (subst parse_members.simps)
       (simp add: skip_ws_nonspace skip_ws_space json_space_simps parse_chars_quoted sp)
qed

lemma parse_members_last:
  assumes v: "parse_value (vt @ newline # CHR '' '' # CHR '' '' # CHR ''}'' # rest) =
                Some (v, newline # CHR '' '' # CHR '' '' # CHR ''}'' # rest)"
  shows "parse_members (newline # CHR '' '' # CHR '' '' # CHR '' '' # CHR '' '' #
                        quote_string k @ CHR '':'' # CHR '' '' # vt @
                        newline # CHR '' '' # CHR '' '' # CHR ''}'' # rest) =
           Some ([(k, v)], rest)"
proof -
  have e: "quote_string k @ CHR '':'' # CHR '' '' # vt @
             newline # CHR '' '' # CHR '' '' # CHR ''}'' # rest =
           dquote # (concat (map quote_char k) @ dquote # CHR '':'' # CHR '' '' # vt @
             newline # CHR '' '' # CHR '' '' # CHR ''}'' # rest)"
    by (simp add: quote_string_def)
  have sp: "parse_value (CHR '' '' # vt @ newline # CHR '' '' # CHR '' '' # CHR ''}'' # rest) =
              Some (v, newline # CHR '' '' # CHR '' '' # CHR ''}'' # rest)"
    using parse_value_spaces [of "'' ''" "vt @ newline # CHR '' '' # CHR '' '' # CHR ''}'' # rest"] v
    by (simp add: json_space_simps)
  show ?thesis
    unfolding e
    by (subst parse_members.simps)
       (simp add: skip_ws_nonspace skip_ws_space json_space_simps parse_chars_quoted sp)
qed

lemma stringify_countdown_text:
  "stringify_countdown cd @ rest =
     CHR ''{'' # newline # CHR '' '' # CHR '' '' # CHR '' '' # CHR '' '' #
     quote_string ''name'' @ CHR '':'' # CHR '' '' # quote_string (name cd) @ CHR '','' #
     newline # CHR '' '' # CHR '' '' # CHR '' '' # CHR '' '' #
     quote_string ''targetDate'' @ CHR '':'' # CHR '' '' # js_string_of_int (targetDate cd) @ CHR '','' #
     newline # CHR '' '' # CHR '' '' # CHR '' '' # CHR '' '' #
     quote_string ''channelId'' @ CHR '':'' # CHR '' '' # quote_string (channelId cd) @ CHR '','' #
     newline # CHR '' '' # CHR '' '' # CHR '' '' # CHR '' '' #
     quote_string ''messageId'' @ CHR '':'' # CHR '' '' # quote_string (messageId cd) @ CHR '','' #
     newline # CHR '' '' # CHR '' '' # CHR '' '' # CHR '' '' #
     quote_string ''createdBy'' @ CHR '':'' # CHR '' '' # quote_string (createdBy cd) @ CHR '','' #
     newline # CHR '' '' # CHR '' '' # CHR '' '' # CHR '' '' #
     quote_string ''createdAt'' @ CHR '':'' # CHR '' '' # js_string_of_int (createdAt cd) @
     newline # CHR '' '' # CHR '' '' # CHR ''}'' # rest"
  by (simp add: stringify_countdown_def stringify_member_def)

lemma members_of_countdown:
  "parse_members
    (newline # CHR '' '' # CHR '' '' # CHR '' '' # CHR '' '' #
     quote_string ''name'' @ CHR '':'' # CHR '' '' # quote_string (name cd) @ CHR '','' #
     newline # CHR '' '' # CHR '' '' # CHR '' '' # CHR '' '' #
     quote_string ''targetDate'' @ CHR '':'' # CHR '' '' # js_string_of_int (targetDate cd) @ CHR '','' #
     newline # CHR '' '' # CHR '' '' # CHR '' '' # CHR '' '' #
     quote_string ''channelId'' @ CHR '':'' # CHR '' '' # quote_string (channelId cd) @ CHR '','' #
     newline # CHR '' '' # CHR '' '' # CHR '' '' # CHR '' '' #
     quote_string ''messageId'' @ CHR '':'' # CHR '' '' # quote_string (messageId cd) @ CHR '','' #
     newline # CHR '' '' # CHR '' '' # CHR '' '' # CHR '' '' #
     quote_string ''createdBy'' @ CHR '':'' # CHR '' '' # quote_string (createdBy cd) @ CHR '','' #
     newline # CHR '' '' # CHR '' '' # CHR '' '' # CHR '' '' #
     quote_string ''createdAt'' @ CHR '':'' # CHR '' '' # js_string_of_int (createdAt cd) @
     newline # CHR '' '' # CHR '' '' # CHR ''}'' # rest) =
   Some ([(''name'', JStr (name cd)),
          (''targetDate'', JNum (of_int (targetDate cd))),
          (''channelId'', JStr (channelId cd)),
          (''messageId'', JStr (messageId cd)),
          (''createdBy'', JStr (createdBy cd)),
          (''createdAt'', JNum (of_int (createdAt cd)))], rest)"
proof -
  have s: "\<And>x r. parse_value (quote_string x @ CHR '','' # r) = Some (JStr x, CHR '','' # r)"
    by (rule parse_value_string)
  have i: "\<And>x r. parse_value (js_string_of_int x @ CHR '','' # r) =
                    Some (JNum (of_int x), CHR '','' # r)"
    by (rule parse_value_int) (rule ends_number_simps)
  have l: "\<And>x r. parse_value (js_string_of_int x @ newline # CHR '' '' # CHR '' '' # CHR ''}'' # r) =
                    Some (JNum (of_int x), newline # CHR '' '' # CHR '' '' # CHR ''}'' # r)"
    by (rule parse_value_int) (rule ends_number_simps)
  show ?thesis
    by (simp only: parse_members_more [OF s] parse_members_more [OF i] parse_members_last [OF l]
          option.map prod.case)
qed

lemma obj_put_countdown:
  "foldl obj_put [] [(''name'', a), (''targetDate'', b), (''channelId'', c),
                     (''messageId'', d), (''createdBy'', e), (''createdAt'', f)] =
     [(''name'', a), (''targetDate'', b), (''channelId'', c),
      (''messageId'', d), (''createdBy'', e), (''createdAt'', f)]"
  by (simp add: obj_put_def)

lemma quote_string_Cons:
  "quote_string k @ r = dquote # concat (map quote_char k) @ dquote # r"
  by (simp add: quote_string_def)

lemma parse_value_object:
  assumes "parse_members (newline # CHR '' '' # CHR '' '' # CHR '' '' # CHR '' '' #
                          quote_string k @ r) = Some (ms, t)"
  shows "parse_value (CHR ''{'' # newline # CHR '' '' # CHR '' '' # CHR '' '' # CHR '' '' #
                      quote_string k @ r) = Some (JObj (foldl obj_put [] ms), t)"
proof -
  have d: "dquote \<noteq> CHR ''}''" by (simp add: dquote_def)
  show ?thesis
    using assms unfolding quote_string_Cons
    by (subst parse_value.simps)
       (simp add: skip_ws_nonspace skip_ws_space json_space_simps d)
qed

lemma parse_value_countdown:
  "parse_value (stringify_countdown cd @ rest) = Some (json_of_countdown cd, rest)"
  unfolding stringify_countdown_text
  by (simp only: parse_value_object [OF members_of_countdown] obj_put_countdown
        json_of_countdown_def)

lemma stringify_countdown_Cons:
  "\<exists>t. stringify_countdown cd = CHR ''{'' # t"
  by (simp add: stringify_countdown_def)

lemma parse_elements_countdowns:
  assumes "list_all is_json_space ws"
  shows "parse_elements (ws @ join ('','' @ [newline] @ ''  '') (map stringify_countdown (cd # cds)) @
                         newline # CHR '']'' # rest) =
           Some (map json_of_countdown (cd # cds), rest)"
  using assms
proof (induction cds arbitrary: cd ws)
  case Nil
  define S where "S = ws @ stringify_countdown cd @ newline # CHR '']'' # rest"
  have v: "parse_value S = Some (json_of_countdown cd, newline # CHR '']'' # rest)"
    unfolding S_def using parse_value_spaces [OF Nil.prems] parse_value_countdown by simp
  have "parse_elements S = Some ([json_of_countdown cd], rest)"
    by (subst parse_elements.simps)
       (simp add: v skip_ws_space skip_ws_nonspace json_space_simps)
  then show ?case by (simp add: S_def)
next
  case (Cons cd' cds)
  define T where "T = join ('','' @ [newline] @ ''  '') (map stringify_countdown (cd' # cds)) @
                        newline # CHR '']'' # rest"
  define S where "S = ws @ stringify_countdown cd @ CHR '','' # newline # CHR '' '' # CHR '' '' # T"
  have v: "parse_value S =
             Some (json_of_countdown cd, CHR '','' # newline # CHR '' '' # CHR '' '' # T)"
    unfolding S_def using parse_value_spaces [OF Cons.prems] parse_value_countdown by simp
  have ih: "parse_elements (newline # CHR '' '' # CHR '' '' # T) =
              Some (map json_of_countdown (cd' # cds), rest)"
    unfolding T_def
    using Cons.IH [of "[newline, CHR '' '', CHR '' '']" cd'] by (simp add: json_space_simps)
  have len: "length (newline # CHR '' '' # CHR '' '' # T) < length S"
    by (simp add: S_def)
  have "parse_elements S = Some (map json_of_countdown (cd # cd' # cds), rest)"
    using len
    by (subst parse_elements.simps)
       (simp add: v ih skip_ws_nonspace json_space_simps)
  then show ?case by (simp add: S_def T_def)
qed

lemma JSON_parse_stringify: "JSON_parse (JSON_stringify cds) = Inr (json_of_countdowns cds)"
proof (cases cds)
  case Nil
  show ?thesis
    unfolding Nil JSON_parse_def JSON_stringify_def
    by (subst parse_value.simps)
       (simp add: skip_ws_nonspace skip_ws_Nil json_space_simps json_of_countdowns_def)
next
  case (Cons cd rest)
  define body where
    "body = join ('','' @ [newline] @ ''  '') (map stringify_countdown (cd # rest))"
  obtain t where t: "stringify_countdown cd = CHR ''{'' # t"
    using stringify_countdown_Cons by blast
  have "\<exists>u. body = CHR ''{'' # u"
    unfolding body_def by (cases rest) (simp_all add: t)
  then obtain u where u: "body = CHR ''{'' # u" by blast
  have e0: "parse_elements ([newline, CHR '' '', CHR '' ''] @ body @ newline # CHR '']'' # []) =
              Some (map json_of_countdown (cd # rest), [])"
    unfolding body_def by (rule parse_elements_countdowns) (simp add: json_space_simps)
  have e: "parse_elements (newline # CHR '' '' # CHR '' '' # CHR ''{'' # u @ [newline, CHR '']'']) =
             Some (map json_of_countdown (cd # rest), [])"
    using e0 by (simp add: u)
  have s: "JSON_stringify (cd # rest) =
             CHR ''['' # newline # CHR '' '' # CHR '' '' # body @ [newline, CHR '']'']"
    unfolding body_def by (simp add: JSON_stringify_def)
  have p: "parse_value (CHR ''['' # newline # CHR '' '' # CHR '' '' # CHR ''{'' # u @ [newline, CHR '']'']) =
             Some (JArr (map json_of_countdown (cd # rest)), [])"
    by (subst parse_value.simps)
       (simp add: e skip_ws_nonspace skip_ws_space json_space_simps)
  show ?thesis
    unfolding Cons s u JSON_parse_def
    by (simp add: p skip_ws_Nil json_of_countdowns_def)
qed

lemma json_of_countdown_inj: "json_of_countdown a = json_of_countdown b \<Longrightarrow> a = b"
  by (cases a, cases b) (simp add: json_of_countdown_def)

lemma json_of_countdowns_inj: "inj json_of_countdowns"
proof (rule injI)
  fix xs ys
  assume "json_of_countdowns xs = json_of_countdowns ys"
  then have "map json_of_countdown xs = map json_of_countdown ys"
    by (simp add: json_of_countdowns_def)
  then show "xs = ys"
    using json_of_countdown_inj by (simp add: inj_on_def)
qed

lemma length_text_countdowns:
  "length_text (json_of_countdowns cds) = Inr (show_nat (length cds))"
  by (simp add: length_text_def json_of_countdowns_def)

text \<open>
  Every parser that returns has consumed input, so the tests on the lengths in
  \<open>parse_elements\<close> and \<open>parse_members\<close> never fail.
\<close>

lemma parse_chars_shorter: "parse_chars s = Some (x, r) \<Longrightarrow> length r < length s"
proof (induction s arbitrary: x r rule: parse_chars.induct)
  case 1
  then show ?case by simp
next
  case (2 c cs)
  consider (q) "c = dquote" | (b) "c \<noteq> dquote" "c = backslash"
    | (p) "c \<noteq> dquote" "c \<noteq> backslash"
    by blast
  then show ?case
  proof cases
    case q
    then show ?thesis using "2.prems" by auto
  next
    case p
    then have n: "\<not> (of_char c :: nat) < 32" using "2.prems" by (auto split: if_splits)
    obtain y where "parse_chars cs = Some (y, r)"
      using p n "2.prems" by auto
    then have "length r < length cs" using "2.IH"(3) [OF p n] by blast
    then show ?thesis by simp
  next
    case b
    then obtain e t where cs: "cs = e # t" using "2.prems" by (cases cs) auto
    show ?thesis
    proof (cases "e = CHR ''u''")
      case False
      obtain z where z: "escape_char e = Some z"
        using b cs False "2.prems" by (auto split: option.splits)
      obtain y where "parse_chars t = Some (y, r)"
        using b cs False z "2.prems" by auto
      then have "length r < length t" using "2.IH"(2) [OF b cs False z] by blast
      then show ?thesis by (simp add: cs)
    next
      case True
      obtain h3 h2 h1 h0 t' where t: "t = h3 # h2 # h1 # h0 # t'"
        using b cs True "2.prems" by (auto split: list.splits)
      obtain n where n: "hex4 h3 h2 h1 h0 = Some n"
        using b cs True t "2.prems" by (auto split: option.splits)
      obtain y where "parse_chars t' = Some (y, r)"
        using b cs True t n "2.prems" by auto
      then have "length r < length t'"
        using "2.IH"(1) [OF b cs True, of h3 "h2 # h1 # h0 # t'" h2 "h1 # h0 # t'" h1 "h0 # t'" h0 t' n]
          t n by simp
      then show ?thesis by (simp add: cs t)
    qed
  qed
qed


lemma length_skip_ws: "length (skip_ws s) \<le> length s"
  by (simp add: skip_ws_def length_dropWhile_le)

lemma parse_int_part_shorter: "parse_int_part s = Some (ip, r) \<Longrightarrow> length r < length s"
proof -
  assume a: "parse_int_part s = Some (ip, r)"
  define ds where "ds = (if take 1 s = ''0'' then ''0'' else takeWhile is_digit s)"
  have ne: "ds \<noteq> []" and r: "r = drop (length ds) s"
    using a by (auto simp add: parse_int_part_def ds_def Let_def split: if_splits)
  have "s \<noteq> []" using ne by (auto simp add: ds_def split: if_splits)
  then show ?thesis using ne r by (cases ds) auto
qed

lemma parse_frac_part_shorter: "parse_frac_part s = Some (fp, r) \<Longrightarrow> length r \<le> length s"
  by (auto simp add: parse_frac_part_def Let_def split: if_splits)

lemma parse_exp_part_shorter: "parse_exp_part s = Some (e, r) \<Longrightarrow> length r \<le> length s"
  by (auto simp add: parse_exp_part_def Let_def split: if_splits)

lemma parse_number_shorter: "parse_number s = Some (q, r) \<Longrightarrow> length r < length s"
proof -
  assume a: "parse_number s = Some (q, r)"
  let ?s1 = "if take 1 s = ''-'' then drop 1 s else s"
  obtain ip s2 where i: "parse_int_part ?s1 = Some (ip, s2)"
    using a by (auto simp add: parse_number_def split: option.splits)
  obtain fp s3 where f: "parse_frac_part s2 = Some (fp, s3)"
    using a i by (auto simp add: parse_number_def split: option.splits)
  obtain e s4 where e: "parse_exp_part s3 = Some (e, s4)"
    using a i f by (auto simp add: parse_number_def split: option.splits)
  have r: "r = s4" using a i f e by (simp add: parse_number_def)
  have "length s2 < length ?s1" using i by (rule parse_int_part_shorter)
  moreover have "length ?s1 \<le> length s" by simp
  moreover have "length s3 \<le> length s2" using f by (rule parse_frac_part_shorter)
  moreover have "length s4 \<le> length s3" using e by (rule parse_exp_part_shorter)
  ultimately show ?thesis unfolding r by linarith
qed


lemma parse_value_cases:
  assumes "parse_value s = Some (v, r)"
  obtains (obj_empty) r0 where "skip_ws s = CHR ''{'' # r0" "skip_ws r0 = CHR ''}'' # r"
  | (obj) r0 ms where "skip_ws s = CHR ''{'' # r0" "parse_members r0 = Some (ms, r)"
        "\<exists>d r2. skip_ws r0 = d # r2 \<and> d \<noteq> CHR ''}''"
  | (arr_empty) r0 where "skip_ws s = CHR ''['' # r0" "skip_ws r0 = CHR '']'' # r"
  | (arr) r0 vs where "skip_ws s = CHR ''['' # r0" "parse_elements r0 = Some (vs, r)"
        "\<exists>d r2. skip_ws r0 = d # r2 \<and> d \<noteq> CHR '']''"
  | (str) r0 x where "skip_ws s = dquote # r0" "parse_chars r0 = Some (x, r)"
  | (lit) c r0 n where "skip_ws s = c # r0" "r = drop n (c # r0)" "n = 4 \<or> n = 5"
        "n \<le> length (c # r0)"
  | (num) c r0 q where "skip_ws s = c # r0" "parse_number (c # r0) = Some (q, r)"
proof -
  obtain c r0 where sk: "skip_ws s = c # r0"
    using assms by (subst (asm) parse_value.simps) (auto split: list.splits)
  note e = assms [unfolded parse_value.simps [of s] sk list.case]
  show ?thesis
  proof (cases "c = CHR ''{''")
    case True
    then show ?thesis
      using e sk obj_empty obj by (auto split: list.splits if_splits)
  next
    case nb: False
    show ?thesis
    proof (cases "c = CHR ''[''")
      case True
      then show ?thesis
        using e sk nb arr_empty arr by (auto split: list.splits if_splits)
    next
      case na: False
      show ?thesis
      proof (cases "c = dquote")
        case True
        then show ?thesis using e sk nb na str by auto
      next
        case nq: False
        have t4: "\<And>l. take 4 (c # r0) = l \<Longrightarrow> length l = 4 \<Longrightarrow> 4 \<le> length (c # r0)"
          by (metis length_take min.cobounded1 min.commute)
        have t5: "\<And>l. take 5 (c # r0) = l \<Longrightarrow> length l = 5 \<Longrightarrow> 5 \<le> length (c # r0)"
          by (metis length_take min.cobounded1 min.commute)
        consider (a) "take 4 (c # r0) = ''true''"
          | (b) "take 4 (c # r0) \<noteq> ''true''" "take 5 (c # r0) = ''false''"
          | (c) "take 4 (c # r0) \<noteq> ''true''" "take 5 (c # r0) \<noteq> ''false''"
                "take 4 (c # r0) = ''null''"
          | (d) "take 4 (c # r0) \<noteq> ''true''" "take 5 (c # r0) \<noteq> ''false''"
                "take 4 (c # r0) \<noteq> ''null''"
          by blast
        then show ?thesis
        proof cases
          case a
          have "r = drop 4 (c # r0)" using e nb na nq a by simp
          then show ?thesis using lit [OF sk, of 4] t4 [OF a] by simp
        next
          case b
          have "r = drop 5 (c # r0)" using e nb na nq b by simp
          then show ?thesis using lit [OF sk, of 5] t5 [OF b(2)] by simp
        next
          case c
          have "r = drop 4 (c # r0)" using e nb na nq c by simp
          then show ?thesis using lit [OF sk, of 4] t4 [OF c(3)] by simp
        next
          case d
          then obtain q where "parse_number (c # r0) = Some (q, r)"
            using e nb na nq by auto
          then show ?thesis using num [OF sk] by blast
        qed
      qed
    qed
  qed
qed


lemma parse_value_shorter: "parse_value s = Some (v, r) \<Longrightarrow> length r < length s"
  and parse_elements_shorter: "parse_elements t = Some (vs, r') \<Longrightarrow> length r' < length t"
  and parse_members_shorter: "parse_members u = Some (ms, r'') \<Longrightarrow> length r'' < length u"
proof (induction s and t and u arbitrary: v r and vs r' and ms r''
       rule: parse_value_parse_elements_parse_members.induct)
  case (1 s)
  from "1.prems" show ?case
  proof (cases rule: parse_value_cases)
    case (obj_empty r0)
    then show ?thesis using skip_ws_shorter [of s] skip_ws_shorter [of r0] by fastforce
  next
    case (obj r0 ms)
    then obtain d r2 where d: "skip_ws r0 = d # r2" "d \<noteq> CHR ''}''" by blast
    have "length r < length r0"
      using "1.IH"(1) [OF obj(1) refl d] obj(2) by blast
    then show ?thesis using skip_ws_shorter [OF obj(1)] by simp
  next
    case (arr_empty r0)
    then show ?thesis using skip_ws_shorter [of s] skip_ws_shorter [of r0] by fastforce
  next
    case (arr r0 vs)
    then obtain d r2 where d: "skip_ws r0 = d # r2" "d \<noteq> CHR '']''" by blast
    have b: "CHR ''['' \<noteq> CHR ''{''" by simp
    have "length r < length r0"
      using "1.IH"(2) [OF arr(1) b refl d] arr(2) by blast
    then show ?thesis using skip_ws_shorter [OF arr(1)] by simp
  next
    case (str r0 x)
    then show ?thesis
      using skip_ws_shorter [OF str(1)] parse_chars_shorter [OF str(2)] by simp
  next
    case (lit c r0 n)
    have "length (c # r0) \<le> length s" using length_skip_ws [of s] lit(1) by simp
    then show ?thesis using lit by auto
  next
    case (num c r0 q)
    have "length (c # r0) \<le> length s" using length_skip_ws [of s] num(1) by simp
    then show ?thesis using parse_number_shorter [OF num(2)] by simp
  qed
next
  case (2 s)
  obtain v r where v: "parse_value s = Some (v, r)"
    using "2.prems" by (subst (asm) parse_elements.simps) (auto split: option.splits)
  have l: "length r < length s" using "2.IH"(1) [OF v] .
  obtain c r2 where sk: "skip_ws r = c # r2"
    using "2.prems" v by (subst (asm) parse_elements.simps) (auto split: list.splits)
  have l2: "length r2 < length r" using skip_ws_shorter [OF sk] .
  note e = "2.prems" [unfolded parse_elements.simps [of s] v option.case prod.case sk list.case]
  show ?case
  proof (cases "c = CHR '']''")
    case True
    then show ?thesis using e l l2 by simp
  next
    case False
    then have c: "c = CHR '','' \<and> length r2 < length s" using e by (auto split: if_splits)
    obtain ws where "parse_elements r2 = Some (ws, r')"
      using e False c by auto
    then have "length r' < length r2"
      using "2.IH"(2) [OF v refl sk False c] by blast
    then show ?thesis using l l2 by simp
  qed
next
  case (3 s)
  obtain q r where sq: "skip_ws s = q # r"
    using "3.prems" by (subst (asm) parse_members.simps) (auto split: list.splits)
  note e0 = "3.prems" [unfolded parse_members.simps [of s] sq list.case]
  have q: "q = dquote" using e0 by (auto split: if_splits)
  obtain k r1 where k: "parse_chars r = Some (k, r1)"
    using e0 q by (auto split: option.splits)
  obtain colon r2 where sc: "skip_ws r1 = colon # r2"
    using e0 q k by (auto split: list.splits)
  have c: "colon = CHR '':'' \<and> length r2 < length s"
    using e0 q k sc by (auto split: if_splits)
  obtain v r3 where v: "parse_value r2 = Some (v, r3)"
    using e0 q k sc c by (auto split: option.splits)
  obtain d r4 where sd: "skip_ws r3 = d # r4"
    using e0 q k sc c v by (auto split: list.splits)
  have l3: "length r3 < length r2"
    using "3.IH"(1) [OF sq q k refl sc c] v by blast
  have l4: "length r4 < length r3" using skip_ws_shorter [OF sd] .
  show ?case
  proof (cases "d = CHR ''}''")
    case True
    then have "r'' = r4" using e0 q k sc c v sd by simp
    then show ?thesis using c l3 l4 by simp
  next
    case False
    then have c2: "d = CHR '','' \<and> length r4 < length s"
      using e0 q k sc c v sd by (auto split: if_splits)
    obtain ms' where "parse_members r4 = Some (ms', r'')"
      using e0 q k sc c v sd False c2 by auto
    then have "length r'' < length r4"
      using "3.IH"(2) [OF sq q k refl sc c v refl sd False c2] by blast
    then show ?thesis using c2 by simp
  qed
qed

text \<open>The tests on the lengths in the parser never fail: without them it reads the same.\<close>

lemma parse_elements_unguarded:
  "parse_elements s =
     (case parse_value s of
        None \<Rightarrow> None
      | Some (v, r) \<Rightarrow>
          (case skip_ws r of
             [] \<Rightarrow> None
           | c # r2 \<Rightarrow>
               if c = CHR '']'' then Some ([v], r2)
               else if c = CHR '',''
               then map_option (\<lambda>(vs, t). (v # vs, t)) (parse_elements r2)
               else None))"
proof (cases "parse_value s")
  case None
  then show ?thesis by (subst parse_elements.simps) simp
next
  case (Some p)
  obtain v r where p: "p = (v, r)" by (cases p)
  have l: "length r < length s" using parse_value_shorter Some p by blast
  show ?thesis
  proof (cases "skip_ws r")
    case Nil
    then show ?thesis using Some p by (subst parse_elements.simps) simp
  next
    case (Cons c r2)
    have "length r2 < length s" using skip_ws_shorter [OF Cons] l by simp
    then show ?thesis using Some p Cons by (subst parse_elements.simps) simp
  qed
qed


lemma parse_members_unguarded:
  "parse_members s =
     (case skip_ws s of
        [] \<Rightarrow> None
      | q # r \<Rightarrow>
          if q = dquote then
            (case parse_chars r of
               None \<Rightarrow> None
             | Some (k, r1) \<Rightarrow>
                 (case skip_ws r1 of
                    [] \<Rightarrow> None
                  | colon # r2 \<Rightarrow>
                      if colon = CHR '':'' then
                        (case parse_value r2 of
                           None \<Rightarrow> None
                         | Some (v, r3) \<Rightarrow>
                             (case skip_ws r3 of
                                [] \<Rightarrow> None
                              | c # r4 \<Rightarrow>
                                  if c = CHR ''}'' then Some ([(k, v)], r4)
                                  else if c = CHR '',''
                                  then map_option (\<lambda>(ms, t). ((k, v) # ms, t))
                                         (parse_members r4)
                                  else None))
                      else None))
          else None)"
proof -
  have g2: "length r2 < length s"
    if "skip_ws s = q # r" "parse_chars r = Some (k, r1)" "skip_ws r1 = colon # r2"
    for q r k r1 colon r2
    using skip_ws_shorter [OF that(1)] parse_chars_shorter [OF that(2)]
      skip_ws_shorter [OF that(3)] by simp
  have g4: "length r4 < length s"
    if "skip_ws s = q # r" "parse_chars r = Some (k, r1)" "skip_ws r1 = colon # r2"
      "parse_value r2 = Some (v, r3)" "skip_ws r3 = c # r4"
    for q r k r1 colon r2 v r3 c r4
    using g2 [OF that(1-3)] parse_value_shorter [OF that(4)] skip_ws_shorter [OF that(5)]
    by simp
  show ?thesis
    by (subst parse_members.simps)
       (auto split: list.splits option.splits dest: g2 g4)
qed

text \<open>
  Claim C5. For every list of countdown records: after \<^verbatim>\<open>saveCountdowns()\<close> has written
  the file, \<^verbatim>\<open>loadCountdowns()\<close> in an instance that held anything before holds the array of
  the same records, each with the same six properties and values, in the same order (and
  logs their number); two lists with the same array are the same list.
\<close>

theorem save_then_load:
  "loadCountdowns (countdowns_file (saveCountdowns None st)) (held, lines) =
     (json_of_countdowns (countdowns st),
      lines @ [ConsoleLog (''Loaded '' @ show_nat (length (countdowns st)) @
                           '' countdown(s) from file.'')]) \<and>
   inj json_of_countdowns"
proof
  have f: "countdowns_file (saveCountdowns None st) = Content (JSON_stringify (countdowns st))"
    by (simp add: saveCountdowns_def)
  show "loadCountdowns (countdowns_file (saveCountdowns None st)) (held, lines) =
     (json_of_countdowns (countdowns st),
      lines @ [ConsoleLog (''Loaded '' @ show_nat (length (countdowns st)) @
                           '' countdown(s) from file.'')])"
    unfolding f loadCountdowns_def
    by (simp add: JSON_parse_stringify length_text_countdowns)
  show "inj json_of_countdowns" by (rule json_of_countdowns_inj)
qed







end
